theory Spec2Isabelle
  imports Complex_Main "HOL-Library.Word"
begin

unbundle bit_operations_syntax

section \<open>Python values and exceptions\<close>

text \<open>
  Every \<^verbatim>\<open>raise\<close> of the source, and every exception the Python runtime raises on
  its own (indexing out of range, a missing dictionary key, an attribute read on
  \<^verbatim>\<open>None\<close>, raising something that is not an exception), is a value of
  \<open>py_error\<close>; a function that can raise returns \<open>py_error + 'a\<close>.
  Where the source compares, joins, replaces an ASCII character in, or encodes
  a \<^verbatim>\<open>str\<close>, the model keeps its UTF-8 bytes (\<open>string\<close>): the encoding respects
  equality and concatenation. Where the source slices or indexes a \<^verbatim>\<open>str\<close>, which
  counts code points, the model keeps the code points (\<open>unicode\<close>).
\<close>

datatype py_error =
    IndexError
  | KeyError string
  | TypeError string
  | AttributeError string
  | ValueError string
  | XMLSyntaxError
  | BadZipFile
  | UserError string
  | FinvoiceGenerationException string

text \<open>Python's \<^verbatim>\<open>xs[i]\<close>: a negative index counts from the end, out of range raises.\<close>

definition py_index :: "'a list \<Rightarrow> int \<Rightarrow> py_error + 'a" where
  "py_index xs i =
     (if 0 \<le> i \<and> nat i < length xs then Inr (xs ! nat i)
      else if i < 0 \<and> nat (- i) \<le> length xs then Inr (xs ! (length xs - nat (- i)))
      else Inl IndexError)"

text \<open>Python's \<^verbatim>\<open>xs[lo:hi]\<close>: both bounds are clamped to the sequence, never raises.\<close>

definition py_bound :: "int \<Rightarrow> int \<Rightarrow> nat" where
  "py_bound n i = nat (if i < 0 then max 0 (n + i) else min n i)"

definition py_slice :: "'a list \<Rightarrow> int \<Rightarrow> int \<Rightarrow> 'a list" where
  "py_slice xs lo hi =
     (let n = int (length xs)
      in drop (py_bound n lo) (take (py_bound n hi) xs))"

text \<open>Truth value of an Odoo \<^verbatim>\<open>Char\<close> field: unset is \<^verbatim>\<open>False\<close>, and the empty string is falsy too.\<close>

fun truthy :: "string option \<Rightarrow> bool" where
  "truthy None = False"
| "truthy (Some s) = (s \<noteq> [])"

section \<open>Field formatters\<close>

text \<open>A \<^verbatim>\<open>str\<close> as the list of its code points; \<open>code_points\<close> of an ASCII literal.\<close>

type_synonym unicode = "nat list"

definition code_points :: "string \<Rightarrow> unicode" where
  "code_points s = map of_char s"

text \<open>
  \<^verbatim>\<open>
  def vat_number_in_finnish_format(vat_number):
      beginning = vat_number[2:-1]
      end = vat_number[-1]
      return f'{beginning}-{end}'
  \<close>
\<close>

definition vat_number_in_finnish_format :: "unicode \<Rightarrow> py_error + unicode" where
  "vat_number_in_finnish_format vat_number =
     (let beginning = py_slice vat_number 2 (- 1)
      in case py_index vat_number (- 1) of
           Inl e \<Rightarrow> Inl e
         | Inr end_char \<Rightarrow> Inr (beginning @ code_points ''-'' @ [end_char]))"









text \<open>\<^verbatim>\<open>s.replace(old, new)\<close> for one-character \<open>old\<close> and \<open>new\<close>.\<close>

definition replace_char :: "char \<Rightarrow> char \<Rightarrow> string \<Rightarrow> string" where
  "replace_char old new s = map (\<lambda>c. if c = old then new else c) s"

record currency =
  currency_id_no :: nat
  decimal_places :: nat
  active :: bool


section \<open>Digest signer\<close>

subsection \<open>SHA-256 (\<^verbatim>\<open>hashlib.sha256\<close>), FIPS 180-4\<close>

type_synonym u32 = "32 word"
type_synonym sha_state = "u32 \<times> u32 \<times> u32 \<times> u32 \<times> u32 \<times> u32 \<times> u32 \<times> u32"

text \<open>The round constants, eight to a row.\<close>

definition sha256_k :: "u32 list" where
  "sha256_k =
     [0x428a2f98, 0x71374491, 0xb5c0fbcf, 0xe9b5dba5, 0x3956c25b, 0x59f111f1, 0x923f82a4, 0xab1c5ed5] @
     [0xd807aa98, 0x12835b01, 0x243185be, 0x550c7dc3, 0x72be5d74, 0x80deb1fe, 0x9bdc06a7, 0xc19bf174] @
     [0xe49b69c1, 0xefbe4786, 0x0fc19dc6, 0x240ca1cc, 0x2de92c6f, 0x4a7484aa, 0x5cb0a9dc, 0x76f988da] @
     [0x983e5152, 0xa831c66d, 0xb00327c8, 0xbf597fc7, 0xc6e00bf3, 0xd5a79147, 0x06ca6351, 0x14292967] @
     [0x27b70a85, 0x2e1b2138, 0x4d2c6dfc, 0x53380d13, 0x650a7354, 0x766a0abb, 0x81c2c92e, 0x92722c85] @
     [0xa2bfe8a1, 0xa81a664b, 0xc24b8b70, 0xc76c51a3, 0xd192e819, 0xd6990624, 0xf40e3585, 0x106aa070] @
     [0x19a4c116, 0x1e376c08, 0x2748774c, 0x34b0bcb5, 0x391c0cb3, 0x4ed8aa4a, 0x5b9cca4f, 0x682e6ff3] @
     [0x748f82ee, 0x78a5636f, 0x84c87814, 0x8cc70208, 0x90befffa, 0xa4506ceb, 0xbef9a3f7, 0xc67178f2]"

definition sha256_h0 :: sha_state where
  "sha256_h0 =
    (0x6a09e667, 0xbb67ae85, 0x3c6ef372, 0xa54ff53a, 0x510e527f, 0x9b05688c, 0x1f83d9ab, 0x5be0cd19)"

definition rotr :: "nat \<Rightarrow> u32 \<Rightarrow> u32" where
  "rotr n x = drop_bit n x OR push_bit (32 - n) x"

definition ch :: "u32 \<Rightarrow> u32 \<Rightarrow> u32 \<Rightarrow> u32" where
  "ch x y z = (x AND y) XOR (NOT x AND z)"

definition maj :: "u32 \<Rightarrow> u32 \<Rightarrow> u32 \<Rightarrow> u32" where
  "maj x y z = (x AND y) XOR (x AND z) XOR (y AND z)"

definition big_sigma0 :: "u32 \<Rightarrow> u32" where
  "big_sigma0 x = rotr 2 x XOR rotr 13 x XOR rotr 22 x"

definition big_sigma1 :: "u32 \<Rightarrow> u32" where
  "big_sigma1 x = rotr 6 x XOR rotr 11 x XOR rotr 25 x"

definition small_sigma0 :: "u32 \<Rightarrow> u32" where
  "small_sigma0 x = rotr 7 x XOR rotr 18 x XOR drop_bit 3 x"

definition small_sigma1 :: "u32 \<Rightarrow> u32" where
  "small_sigma1 x = rotr 17 x XOR rotr 19 x XOR drop_bit 10 x"

definition sha256_pad :: "string \<Rightarrow> string" where
  "sha256_pad m =
     (let n = length m;
          k = (64 - (n + 9) mod 64) mod 64;
          bits = (push_bit 3 (of_nat n) :: 64 word)
      in m @ [char_of (128::nat)] @ replicate k (char_of (0::nat)) @
         map (\<lambda>i. char_of (unat (take_bit 8 (drop_bit (8 * (7 - i)) bits)))) [0..<8])"

definition be32 :: "string \<Rightarrow> u32" where
  "be32 bs = foldl (\<lambda>w c. push_bit 8 w OR of_nat (of_char c)) 0 bs"

function chunks :: "nat \<Rightarrow> 'a list \<Rightarrow> 'a list list" where
  "chunks n xs = (if n = 0 \<or> xs = [] then [] else take n xs # chunks n (drop n xs))"
  by pat_completeness auto
termination
  by (relation "measure (\<lambda>(n, xs). length xs)") auto

declare chunks.simps [simp del]

fun schedule_ext :: "nat \<Rightarrow> u32 list \<Rightarrow> u32 list" where
  "schedule_ext 0 r = r"
| "schedule_ext (Suc n) r =
     schedule_ext n ((small_sigma1 (r ! 1) + r ! 6 + small_sigma0 (r ! 14) + r ! 15) # r)"

definition schedule :: "string \<Rightarrow> u32 list" where
  "schedule block = rev (schedule_ext 48 (rev (map be32 (chunks 4 block))))"

fun sha256_round :: "sha_state \<Rightarrow> u32 \<times> u32 \<Rightarrow> sha_state" where
  "sha256_round (a, b, c, d, e, f, g, h) (k, w) =
     (let t1 = h + big_sigma1 e + ch e f g + k + w;
          t2 = big_sigma0 a + maj a b c
      in (t1 + t2, a, b, c, d + t1, e, f, g))"

fun add_state :: "sha_state \<Rightarrow> sha_state \<Rightarrow> sha_state" where
  "add_state (a, b, c, d, e, f, g, h) (a', b', c', d', e', f', g', h') =
     (a + a', b + b', c + c', d + d', e + e', f + f', g + g', h + h')"

definition sha256_compress :: "sha_state \<Rightarrow> string \<Rightarrow> sha_state" where
  "sha256_compress st block = add_state st (foldl sha256_round st (zip sha256_k (schedule block)))"

definition bytes_be32 :: "u32 \<Rightarrow> string" where
  "bytes_be32 w = map (\<lambda>i. char_of (unat (take_bit 8 (drop_bit (8 * (3 - i)) w)))) [0..<4]"

fun state_bytes :: "sha_state \<Rightarrow> string" where
  "state_bytes (a, b, c, d, e, f, g, h) = concat (map bytes_be32 [a, b, c, d, e, f, g, h])"

definition sha256 :: "string \<Rightarrow> string" where
  "sha256 m = state_bytes (foldl sha256_compress sha256_h0 (chunks 64 (sha256_pad m)))"

definition hex_digit :: "nat \<Rightarrow> char" where
  "hex_digit n = ''0123456789abcdef'' ! (n mod 16)"

definition hex_byte :: "char \<Rightarrow> string" where
  "hex_byte c = [hex_digit (of_char c div 16), hex_digit (of_char c mod 16)]"

definition hexdigest :: "string \<Rightarrow> string" where
  "hexdigest bs = concat (map hex_byte bs)"




subsection \<open>The digest of a parameter set\<close>

text \<open>Python's \<^verbatim>\<open>sep.join(xs)\<close>.\<close>

fun join :: "string \<Rightarrow> string list \<Rightarrow> string" where
  "join sep [] = []"
| "join sep [x] = x"
| "join sep (x # y # ys) = x @ sep @ join sep (y # ys)"

text \<open>
  An insertion-ordered \<^verbatim>\<open>dict\<close> is an association list; \<^verbatim>\<open>params.values()\<close> are its
  values in insertion order.
  \<^verbatim>\<open>
  def _calculate_digest(self, params, key):
      digest_params = list(params.values())
      digest_params.append(key)
      digest = '+'.join(digest_params)
      return f'SHA-256:{hashlib.sha256(digest.encode()).hexdigest()}'
  \<close>
\<close>

definition calculate_digest :: "(string \<times> string) list \<Rightarrow> string \<Rightarrow> string" where
  "calculate_digest params key =
     (let digest_params = map snd params;
          digest_params = digest_params @ [key];
          digest = join ''+'' digest_params
      in ''SHA-256:'' @ hexdigest (sha256 digest))"


section \<open>Records of the host application\<close>

text \<open>
  Odoo records, reduced to the fields the source reads. A \<^verbatim>\<open>Char\<close> field is
  \<open>string option\<close> (\<open>None\<close> is the unset field, \<^verbatim>\<open>False\<close>); a \<^verbatim>\<open>Many2one\<close> is an
  option; a record set is a list. Monetary amounts and quantities are Python floats,
  taken as exact rationals.
\<close>

record partner =
  partner_id_no :: nat
  ahkio_company_registry :: "string option"
  ahkio_organisation_unit_number :: "string option"
  ahkio_e_invoice_address :: "string option"
  ahkio_e_invoice_intermediator :: "string option"
  bank_ids :: "nat list"

record company =
  company_id_no :: nat
  display_name :: string
  company_registry :: "string option"
  vat :: "string option"
  company_partner_id :: partner
  ahkio_apix_transfer_id :: "string option"
  ahkio_apix_transfer_key :: "string option"
  currency_id :: currency

text \<open>A journal item of \<^verbatim>\<open>invoice.line_ids\<close>; \<open>tax_line_id\<close> is set on a tax line.\<close>

record move_line =
  tax_line_id :: "nat option"
  line_currency_id :: "nat option"
  amount_currency :: rat
  balance :: rat

record invoice_line =
  display_type :: "string option"
  price_unit :: rat
  discount :: rat
  quantity :: rat
  tax_ids :: "nat list"
  product_id :: "nat option"

record invoice =
  invoice_id_no :: nat
  name :: string
  move_type :: string
  company_id :: company
  partner_id :: partner
  commercial_partner_id :: partner
  has_partner_shipping_field :: bool
  partner_shipping_id :: "partner option"
  line_ids :: "move_line list"
  invoice_line_ids :: "invoice_line list"

text \<open>What the tax engine's \<^verbatim>\<open>compute_all\<close> returns for one invoice line.\<close>

record tax_res =
  tax_res_id :: nat
  tax_res_amount :: rat
  tax_res_base :: rat

record taxes_res =
  total_excluded :: rat
  taxes :: "tax_res list"

record attachment =
  att_name :: string
  att_data :: string
  att_mimetype :: "string option"
  att_type :: "string option"
  att_res_model :: "string option"
  att_res_id :: "nat option"

section \<open>XML trees and the XPath queries of the source\<close>

text \<open>
  An \<^verbatim>\<open>lxml\<close> element: tag, attributes, \<^verbatim>\<open>.text\<close> (the text before the first child,
  \<^verbatim>\<open>None\<close> when there is none), children, and \<^verbatim>\<open>.tail\<close> (the text after the element).
\<close>

datatype xml = Element (tag: string) (attrib: "(string \<times> string) list")
  (text_of: "string option") (children: "xml list") (tail: "string option")

text \<open>\<^verbatim>\<open>el.xpath('./T')\<close>: the children with tag \<open>T\<close>.\<close>

definition child_elements :: "string \<Rightarrow> xml \<Rightarrow> xml list" where
  "child_elements t el = filter (\<lambda>c. tag c = t) (children el)"

fun descendants :: "xml \<Rightarrow> xml list" where
  "descendants (Element t a x cs ta) = concat (map (\<lambda>c. c # descendants c) cs)"

text \<open>\<^verbatim>\<open>tree.xpath('//T')\<close>: every element of the document with tag \<open>T\<close>, in document order.\<close>

definition xpath_all :: "string \<Rightarrow> xml \<Rightarrow> xml list" where
  "xpath_all t doc = filter (\<lambda>c. tag c = t) (doc # descendants doc)"

text \<open>\<^verbatim>\<open>el.xpath('.//T')\<close>: the descendants of \<open>el\<close> with tag \<open>T\<close>.\<close>

definition xpath_below :: "string \<Rightarrow> xml \<Rightarrow> xml list" where
  "xpath_below t el = filter (\<lambda>c. tag c = t) (descendants el)"

text \<open>\<^verbatim>\<open>tree.xpath('/A/B')\<close> and \<^verbatim>\<open>tree.xpath('/A/B/C')\<close>: absolute paths from the doc element.\<close>

definition xpath_abs2 :: "string \<Rightarrow> string \<Rightarrow> xml \<Rightarrow> xml list" where
  "xpath_abs2 a b doc = (if tag doc = a then child_elements b doc else [])"

definition xpath_abs3 :: "string \<Rightarrow> string \<Rightarrow> string \<Rightarrow> xml \<Rightarrow> xml list" where
  "xpath_abs3 a b c doc = concat (map (child_elements c) (xpath_abs2 a b doc))"

text \<open>\<^verbatim>\<open>el.xpath('./@name')\<close>: the values of the attribute, none or one.\<close>

definition xpath_attr :: "string \<Rightarrow> xml \<Rightarrow> string list" where
  "xpath_attr n el = (case map_of (attrib el) n of None \<Rightarrow> [] | Some v \<Rightarrow> [v])"

text \<open>\<^verbatim>\<open>el.xpath('./text()')\<close>: the text nodes directly under \<open>el\<close>: its text, then its children's tails.\<close>

definition xpath_text :: "xml \<Rightarrow> string list" where
  "xpath_text el =
     (case text_of el of None \<Rightarrow> [] | Some s \<Rightarrow> [s]) @
     concat (map (\<lambda>c. case tail c of None \<Rightarrow> [] | Some s \<Rightarrow> [s]) (children el))"

section \<open>The environment and the outside world\<close>

record http_request =
  http_method :: string
  url :: string
  params :: "(string \<times> string) list"
  body :: string

record http_response =
  status_code :: nat
  response_text :: string

text \<open>
  What the export puts into the template: the tax lines of the document
  (\<^verbatim>\<open>template_values['tax_details']\<close>) and, per invoice line, its own tax breakdown.
\<close>

record tax_detail =
  td_line :: move_line
  td_tax_amount :: rat
  td_tax_base_amount :: rat

record line_tax_detail =
  ltd_tax :: nat
  ltd_tax_amount :: rat
  ltd_tax_base_amount :: rat

record line_template_values =
  ltv_line :: invoice_line
  ltv_index :: nat
  ltv_tax_details :: "line_tax_detail list"
  net_price_subtotal :: rat

record template_values =
  tv_record :: invoice
  invoice_line_values :: "line_template_values list"
  message_identifier :: string
  message_timestamp :: string
  tv_tax_details :: "tax_detail list"
  tv_pdf_name :: string

text \<open>
  The invoice form the import fills in (\<^verbatim>\<open>odoo.tests.common.Form\<close> over
  \<^verbatim>\<open>account.move\<close>), as the values it holds; an assignment to the form is a field
  update, and the host's onchange methods are outside the model.
\<close>

record form_line =
  fl_name :: "string option"
  fl_quantity :: rat
  fl_price_unit :: rat
  fl_discount :: rat
  fl_tax_ids :: "nat list"

record invoice_form =
  form_move_type :: string
  form_company_id :: nat
  form_journal_type :: string
  form_partner_id :: "partner option"
  form_ref :: "string option"
  form_payment_reference :: "string option"
  form_narration :: string
  form_currency_id :: currency
  form_invoice_date :: "string option"
  form_invoice_date_due :: "string option"
  form_invoice_line_ids :: "form_line list"

text \<open>
  The collaborators, as the source calls them: the configuration parameter
  \<^verbatim>\<open>ahkio_finvoice.apix_env\<close>, the clock readings \<^verbatim>\<open>datetime.now()\<close> of each call
  site, the tax engine, the two renderers, the zip writer and reader (\<open>None\<close>:
  \<^verbatim>\<open>BadZipFile\<close>), the name of the temporary file, the XML parser (\<open>None\<close>:
  \<^verbatim>\<open>etree.fromstring\<close> raises) and the remote server; for the import the caller
  (\<^verbatim>\<open>env.is_superuser()\<close>, \<^verbatim>\<open>env.company\<close>), the record searches with
  \<^verbatim>\<open>limit=1\<close> (\<open>None\<close>: the empty record set), the currency lookup
  \<^verbatim>\<open>env.ref('base.%s' % s.upper(), raise_if_not_found=False)\<close>, Python's \<^verbatim>\<open>float\<close>
  (\<open>None\<close>: \<^verbatim>\<open>ValueError\<close>), \<^verbatim>\<open>strptime(s, '%Y%m%d')\<close> followed by
  \<^verbatim>\<open>strftime(DEFAULT_SERVER_DATE_FORMAT)\<close> (\<open>None\<close>: \<^verbatim>\<open>ValueError\<close>), and the
  defaults of a new form and of a new form line.
\<close>

record env =
  apix_env_param :: string
  clock_message :: string
  clock_timestamp :: string
  clock_t :: string
  compute_all :: "invoice \<Rightarrow> invoice_line \<Rightarrow> rat \<Rightarrow> taxes_res"
  render_qweb_pdf :: "invoice \<Rightarrow> string"
  render_template :: "template_values \<Rightarrow> string"
  zip_write :: "(string \<times> string) list \<Rightarrow> string"
  zip_read :: "string \<Rightarrow> (string \<times> string) list option"
  temp_basename :: "string \<Rightarrow> string \<Rightarrow> string"
  fromstring :: "string \<Rightarrow> xml option"
  http :: "http_request \<Rightarrow> http_response"
  is_superuser :: bool
  env_company :: company
  search_company_by_ovt :: "string option \<Rightarrow> company option"
  search_company_by_registry :: "string option \<Rightarrow> company option"
  search_company_by_vat :: "string option \<Rightarrow> company option"
  search_partner_by_ovt :: "string option \<Rightarrow> partner option"
  search_partner_by_registry :: "string option \<Rightarrow> partner option"
  search_partner_by_vat :: "string option \<Rightarrow> partner option"
  ref_currency :: "string \<Rightarrow> currency option"
  search_tax :: "nat \<Rightarrow> string \<Rightarrow> rat \<Rightarrow> nat option"
  float_of_string :: "string \<Rightarrow> rat option"
  strptime_ymd :: "string \<Rightarrow> string option"
  new_form :: "nat option \<Rightarrow> string \<Rightarrow> invoice_form"
  new_form_line :: "invoice_form \<Rightarrow> form_line"

text \<open>
  The effects: the HTTP requests sent so far, the attachment table (an attachment's id
  is its position), the invoices created, the messages posted on invoices (invoice id,
  body, attachment ids) and the number of commits.
\<close>

record world =
  http_log :: "http_request list"
  attachments :: "attachment list"
  moves :: "invoice_form list"
  messages :: "(nat \<times> string \<times> nat list) list"
  commits :: nat

definition send :: "env \<Rightarrow> http_request \<Rightarrow> world \<Rightarrow> http_response \<times> world" where
  "send e req w = (http e req, w\<lparr>http_log := http_log w @ [req]\<rparr>)"

text \<open>\<^verbatim>\<open>self.env['ir.attachment'].create(vals)\<close>: the new record's id and the new table.\<close>

definition create_attachment :: "attachment \<Rightarrow> world \<Rightarrow> nat \<times> world" where
  "create_attachment a w = (length (attachments w), w\<lparr>attachments := attachments w @ [a]\<rparr>)"

section \<open>Export\<close>

subsection \<open>Mandatory fields\<close>

text \<open>
  \<^verbatim>\<open>'partner_shipping_id' in invoice._fields and invoice.partner_shipping_id
     and not invoice.partner_shipping_id.<field>\<close>
\<close>

definition shipping_lacks :: "invoice \<Rightarrow> (partner \<Rightarrow> string option) \<Rightarrow> bool" where
  "shipping_lacks invoice fld =
     (has_partner_shipping_field invoice \<and>
      (case partner_shipping_id invoice of None \<Rightarrow> False | Some p \<Rightarrow> \<not> truthy (fld p)))"

definition validate_required_fields :: "invoice \<Rightarrow> py_error + unit" where
  "validate_required_fields invoice =
     (if \<not> truthy (company_registry (company_id invoice)) then
        Inl (FinvoiceGenerationException ''Company registry (y-tunnus) missing from sender.'')
      else if \<not> truthy (ahkio_company_registry (commercial_partner_id invoice)) then
        Inl (FinvoiceGenerationException ''Company registry (y-tunnus) missing from recipient.'')
      else if shipping_lacks invoice ahkio_company_registry then
        Inl (FinvoiceGenerationException ''Company registry (y-tunnus) missing from shipping contact.'')
      else if bank_ids (company_partner_id (company_id invoice)) = [] then
        Inl (FinvoiceGenerationException ''No bank accounts configured for sender.'')
      else if \<not> truthy (ahkio_apix_transfer_id (company_id invoice)) then
        Inl (FinvoiceGenerationException ''Apix transfer id missing from company config.'')
      else if \<not> truthy (ahkio_apix_transfer_key (company_id invoice)) then
        Inl (FinvoiceGenerationException ''Apix transfer key missing from company config.'')
      else if \<not> truthy (ahkio_organisation_unit_number (company_partner_id (company_id invoice))) then
        Inl (FinvoiceGenerationException ''Organisation unit number (OVT) missing from sender.'')
      else if \<not> truthy (ahkio_organisation_unit_number (commercial_partner_id invoice)) then
        Inl (FinvoiceGenerationException ''Organisation unit number (OVT) missing from recipient.'')
      else if shipping_lacks invoice ahkio_organisation_unit_number then
        Inl (FinvoiceGenerationException ''Organisation unit number (OVT) missing from shipping contact.'')
      else if \<not> truthy (ahkio_e_invoice_address (company_partner_id (company_id invoice))) then
        Inl (FinvoiceGenerationException ''E-invoice address missing from sender.'')
      else if \<not> truthy (ahkio_e_invoice_address (commercial_partner_id invoice)) then
        Inl (FinvoiceGenerationException ''E-invoice address missing from recipient.'')
      else if \<not> truthy (ahkio_e_invoice_intermediator (company_partner_id (company_id invoice))) then
        Inl (FinvoiceGenerationException ''E-invoice intermediator missing from sender.'')
      else if \<not> truthy (ahkio_e_invoice_intermediator (commercial_partner_id invoice)) then
        Inl (FinvoiceGenerationException ''E-invoice intermediator missing from recipient.'')
      else Inr ())"

subsection \<open>Tax lines\<close>

text \<open>
  Assignment \<^verbatim>\<open>d[k] = v\<close> to an insertion-ordered dictionary: a key already present
  keeps its place and takes the new value, a new key goes last.
\<close>

fun dict_set :: "('k \<times> 'v) list \<Rightarrow> 'k \<Rightarrow> 'v \<Rightarrow> ('k \<times> 'v) list" where
  "dict_set [] k v = [(k, v)]"
| "dict_set ((k', v') # d) k v = (if k' = k then (k, v) # d else (k', v') # dict_set d k v)"

definition dict_of_pairs :: "('k \<times> 'v) list \<Rightarrow> ('k \<times> 'v) list" where
  "dict_of_pairs kvs = foldl (\<lambda>d (k, v). dict_set d k v) [] kvs"

text \<open>
  \<^verbatim>\<open>
  aggregated_taxes_details = {line.tax_line_id.id: {
      'line': line,
      'tax_amount': -line.amount_currency if line.currency_id else -line.balance,
      'tax_base_amount': 0.0,
  } for line in invoice.line_ids.filtered('tax_line_id')}
  \<close>
\<close>

definition tax_line_entry :: "move_line \<Rightarrow> tax_detail" where
  "tax_line_entry line =
     \<lparr>td_line = line,
      td_tax_amount = (if line_currency_id line \<noteq> None then - amount_currency line else - balance line),
      td_tax_base_amount = 0\<rparr>"

definition initial_taxes_details :: "invoice \<Rightarrow> (nat \<times> tax_detail) list" where
  "initial_taxes_details invoice =
     dict_of_pairs
       (List.map_filter
          (\<lambda>line. case tax_line_id line of None \<Rightarrow> None | Some t \<Rightarrow> Some (t, tax_line_entry line))
          (line_ids invoice))"

text \<open>
  \<^verbatim>\<open>
  if tax.id in aggregated_taxes_details:
      aggregated_taxes_details[tax.id]['tax_base_amount'] += tax_res['base']
  \<close>
\<close>

definition add_base :: "(nat \<times> tax_detail) list \<Rightarrow> tax_res \<Rightarrow> (nat \<times> tax_detail) list" where
  "add_base agg tr =
     (case map_of agg (tax_res_id tr) of
        None \<Rightarrow> agg
      | Some d \<Rightarrow>
          dict_set agg (tax_res_id tr)
            (d\<lparr>td_tax_base_amount := td_tax_base_amount d + tax_res_base tr\<rparr>))"

text \<open>The result of \<^verbatim>\<open>compute_all\<close> for a line, called as the loop body calls it.\<close>

definition line_taxes_res :: "env \<Rightarrow> invoice \<Rightarrow> invoice_line \<Rightarrow> taxes_res" where
  "line_taxes_res e invoice line =
     (let price_unit_with_discount = price_unit line * (1 - discount line / 100)
      in compute_all e invoice line price_unit_with_discount)"

text \<open>One pass of the loop over the invoice lines: \<open>i\<close> is the index \<^verbatim>\<open>enumerate\<close> gives.\<close>

definition invoice_line_step ::
  "env \<Rightarrow> invoice \<Rightarrow> (nat \<times> tax_detail) list \<times> line_template_values list \<Rightarrow> nat \<times> invoice_line \<Rightarrow>
   (nat \<times> tax_detail) list \<times> line_template_values list" where
  "invoice_line_step e invoice st il =
     (let res = line_taxes_res e invoice (snd il);
          line_template_values =
            \<lparr>ltv_line = snd il,
             ltv_index = fst il + 1,
             ltv_tax_details =
               map (\<lambda>tr. \<lparr>ltd_tax = tax_res_id tr, ltd_tax_amount = tax_res_amount tr,
                          ltd_tax_base_amount = tax_res_base tr\<rparr>) (taxes res),
             net_price_subtotal = total_excluded res\<rparr>
      in (foldl add_base (fst st) (taxes res), snd st @ [line_template_values]))"

text \<open>\<^verbatim>\<open>invoice.invoice_line_ids.filtered(lambda l: not l.display_type)\<close>\<close>

definition product_lines :: "invoice \<Rightarrow> invoice_line list" where
  "product_lines invoice = filter (\<lambda>l. \<not> truthy (display_type l)) (invoice_line_ids invoice)"

definition tax_and_line_values ::
  "env \<Rightarrow> invoice \<Rightarrow> (nat \<times> tax_detail) list \<times> line_template_values list" where
  "tax_and_line_values e invoice =
     foldl (invoice_line_step e invoice) (initial_taxes_details invoice, [])
       (enumerate 0 (product_lines invoice))"

text \<open>\<^verbatim>\<open>template_values['tax_details'] = list(aggregated_taxes_details.values())\<close>\<close>

definition aggregated_taxes_details :: "env \<Rightarrow> invoice \<Rightarrow> (nat \<times> tax_detail) list" where
  "aggregated_taxes_details e invoice = fst (tax_and_line_values e invoice)"

definition export_template_values :: "env \<Rightarrow> invoice \<Rightarrow> string \<Rightarrow> template_values" where
  "export_template_values e invoice pdf_name =
     \<lparr>tv_record = invoice,
      invoice_line_values = snd (tax_and_line_values e invoice),
      message_identifier = clock_message e @ ''-'' @ name invoice,
      message_timestamp = clock_timestamp e,
      tv_tax_details = map snd (aggregated_taxes_details e invoice),
      tv_pdf_name = ''file://'' @ pdf_name\<rparr>"

subsection \<open>Upload\<close>

text \<open>
  \<^verbatim>\<open>
  params = {'soft': 'Ahkio', 'ver': '2.0',
            'TraID': invoice.company_id.ahkio_apix_transfer_id,
            't': datetime.now().strftime('%Y%m%d%H%M%S')}
  digest_params = list(params.values())
  digest_params.append(invoice.company_id.ahkio_apix_transfer_key)
  digest = '+'.join(digest_params)
  digest = hashlib.sha256(digest.encode()).hexdigest()
  params['d'] = f'SHA-256:{digest}'
  \<close>
  \<^verbatim>\<open>join\<close> raises \<^verbatim>\<open>TypeError\<close> on an item that is not a string (an unset field is
  \<^verbatim>\<open>False\<close>).
\<close>

definition upload_params :: "env \<Rightarrow> company \<Rightarrow> py_error + (string \<times> string) list" where
  "upload_params e c =
     (case ahkio_apix_transfer_id c of
        None \<Rightarrow> Inl (TypeError ''sequence item 2: expected str instance, bool found'')
      | Some transfer_id \<Rightarrow>
          (case ahkio_apix_transfer_key c of
             None \<Rightarrow> Inl (TypeError ''sequence item 4: expected str instance, bool found'')
           | Some transfer_key \<Rightarrow>
               (let params = [(''soft'', ''Ahkio''), (''ver'', ''2.0''), (''TraID'', transfer_id),
                              (''t'', clock_t e)];
                    digest_params = map snd params @ [transfer_key];
                    digest = join ''+'' digest_params;
                    digest = hexdigest (sha256 digest)
                in Inr (dict_set params ''d'' (''SHA-256:'' @ digest)))))"

definition invoices_url :: "env \<Rightarrow> string" where
  "invoices_url e =
     (if apix_env_param e = ''test'' then ''https://test-api.apix.fi/invoices''
      else ''https://api.apix.fi/invoices'')"

text \<open>
  \<^verbatim>\<open>response_body_xml.xpath('/Response/Status')[0].text\<close> of a response body:
  the parser may raise, and so may the index.
\<close>

definition response_status :: "env \<Rightarrow> http_response \<Rightarrow> py_error + (xml \<times> string option)" where
  "response_status e response =
     (case fromstring e (response_text response) of
        None \<Rightarrow> Inl XMLSyntaxError
      | Some response_body_xml \<Rightarrow>
          (case py_index (xpath_abs2 ''Response'' ''Status'' response_body_xml) 0 of
             Inl err \<Rightarrow> Inl err
           | Inr st \<Rightarrow> Inr (response_body_xml, text_of st)))"

text \<open>The string \<^verbatim>\<open><?xml version="1.0" encoding="UTF-8"?>\<close>; \<open>CHR 0x22\<close> is the double quote.\<close>

definition xml_declaration :: string where
  "xml_declaration =
     ''<?xml version='' @ [CHR 0x22] @ ''1.0'' @ [CHR 0x22] @ '' encoding='' @ [CHR 0x22] @ ''UTF-8'' @
     [CHR 0x22] @ ''?>''"

text \<open>
  \<open>_export_finvoice\<close>. The temporary file has been read to its end when the request
  is sent, so the second \<^verbatim>\<open>temp_zip_file.read()\<close>, for the attachment, returns no bytes.
\<close>

definition export_finvoice :: "env \<Rightarrow> invoice \<Rightarrow> world \<Rightarrow> (py_error + nat) \<times> world" where
  "export_finvoice e invoice w =
     (case validate_required_fields invoice of
        Inl err \<Rightarrow> (Inl err, w)
      | Inr _ \<Rightarrow>
          (let invoice_name_safe = replace_char (CHR ''/'') (CHR ''_'') (name invoice);
               pdf = render_qweb_pdf e invoice;
               pdf_name = invoice_name_safe @ ''_finvoice.pdf'';
               xml_content = xml_declaration @
                             render_template e (export_template_values e invoice pdf_name);
               xml_name = invoice_name_safe @ ''_finvoice.xml''
           in case upload_params e (company_id invoice) of
                Inl err \<Rightarrow> (Inl err, w)
              | Inr ps \<Rightarrow>
                  (let zip = zip_write e [(xml_name, xml_content), (pdf_name, pdf)];
                       temp_name = temp_basename e (''apix_invoice_'' @ invoice_name_safe @ ''_'') ''.zip'';
                       (response, w1) =
                         send e \<lparr>http_method = ''PUT'', url = invoices_url e, params = ps, body = zip\<rparr> w
                   in case response_status e response of
                        Inl err \<Rightarrow> (Inl err, w1)
                      | Inr (response_body_xml, st) \<Rightarrow>
                          if st \<noteq> Some ''OK'' then
                            (Inl (FinvoiceGenerationException (response_text response)), w1)
                          else
                            (let (a, w2) =
                                   create_attachment
                                     \<lparr>att_name = temp_name, att_data = [],
                                      att_mimetype = Some ''application/zip'', att_type = None,
                                      att_res_model = None, att_res_id = None\<rparr> w1
                             in (Inr a, w2)))))"

section \<open>Import\<close>

text \<open>\<^verbatim>\<open>elements and search(..., elements[0].text)\<close>: no element, no search.\<close>

definition search_first :: "(string option \<Rightarrow> 'r option) \<Rightarrow> xml list \<Rightarrow> 'r option" where
  "search_first search elements = (case elements of [] \<Rightarrow> None | el # _ \<Rightarrow> search (text_of el))"

text \<open>The recipient company the document names, if the searches find one.\<close>

definition resolve_company :: "env \<Rightarrow> xml \<Rightarrow> company option" where
  "resolve_company e tree =
     (let elements = (if xpath_all ''InvoiceRecipientOrganisationUnitNumber'' tree \<noteq> []
                      then xpath_all ''InvoiceRecipientOrganisationUnitNumber'' tree
                      else xpath_all ''BuyerOrganisationUnitNumber'' tree)
      in case search_first (search_company_by_ovt e) elements of
           Some c \<Rightarrow> Some c
         | None \<Rightarrow>
             (case search_first (search_company_by_registry e) (xpath_all ''BuyerPartyIdentifier'' tree) of
                Some c \<Rightarrow> Some c
              | None \<Rightarrow>
                  search_first (search_company_by_vat e) (xpath_all ''BuyerOrganisationTaxCode'' tree)))"

text \<open>
  \<^verbatim>\<open>
  if company:
      invoice = invoice.with_context(company_id=company.id)
  else:
      company = self.env.company
  \<close>
\<close>

definition import_company :: "env \<Rightarrow> xml \<Rightarrow> company" where
  "import_company e tree = (case resolve_company e tree of Some c \<Rightarrow> c | None \<Rightarrow> env_company e)"

text \<open>
  \<^verbatim>\<open>
  if not self.env.is_superuser():
      if self.env.company != company:
          raise UserError(_("You can only import invoices to your company: %s", ...))
  \<close>
  Record sets of one model are equal when their ids are.
\<close>

definition authorization_error :: "env \<Rightarrow> py_error" where
  "authorization_error e =
     UserError (''You can only import invoices to your company: '' @ display_name (env_company e))"

definition check_company :: "env \<Rightarrow> company \<Rightarrow> py_error + unit" where
  "check_company e c =
     (if \<not> is_superuser e then
        (if company_id_no (env_company e) \<noteq> company_id_no c then Inl (authorization_error e)
         else Inr ())
      else Inr ())"

text \<open>
  \<^verbatim>\<open>float(el.text.replace(',', '.'))\<close>: \<^verbatim>\<open>AttributeError\<close> on an element without text
  (the payload of \<open>AttributeError\<close> is the attribute read on \<^verbatim>\<open>None\<close>), \<^verbatim>\<open>ValueError\<close>
  on text that is no number.
\<close>

definition parse_decimal :: "env \<Rightarrow> string option \<Rightarrow> py_error + rat" where
  "parse_decimal e t =
     (case t of
        None \<Rightarrow> Inl (AttributeError ''replace'')
      | Some s \<Rightarrow>
          (case float_of_string e (replace_char (CHR '','') (CHR ''.'') s) of
             None \<Rightarrow> Inl (ValueError ''could not convert string to float'')
           | Some v \<Rightarrow> Inr v))"

text \<open>\<^verbatim>\<open>total_amount = elements and float(elements[0].text.replace(',', '.')) or 0.0\<close>\<close>

definition total_amount :: "env \<Rightarrow> xml \<Rightarrow> py_error + rat" where
  "total_amount e tree =
     (case xpath_all ''InvoiceTotalVatIncludedAmount'' tree of
        [] \<Rightarrow> Inr 0
      | el # _ \<Rightarrow>
          (case parse_decimal e (text_of el) of
             Inl err \<Rightarrow> Inl err
           | Inr v \<Rightarrow> Inr (if v = 0 then 0 else v)))"

definition resolve_partner :: "env \<Rightarrow> xml \<Rightarrow> partner option" where
  "resolve_partner e tree =
     (case search_first (search_partner_by_ovt e) (xpath_all ''SellerOrganisationUnitNumber'' tree) of
        Some p \<Rightarrow> Some p
      | None \<Rightarrow>
          (case search_first (search_partner_by_registry e) (xpath_all ''SellerPartyIdentifier'' tree) of
             Some p \<Rightarrow> Some p
           | None \<Rightarrow>
               search_first (search_partner_by_vat e) (xpath_all ''SellerOrganisationTaxCode'' tree)))"

definition set_partner :: "env \<Rightarrow> xml \<Rightarrow> invoice_form \<Rightarrow> invoice_form" where
  "set_partner e tree form =
     (case resolve_partner e tree of None \<Rightarrow> form | Some p \<Rightarrow> form\<lparr>form_partner_id := Some p\<rparr>)"

definition set_ref :: "xml \<Rightarrow> invoice_form \<Rightarrow> invoice_form" where
  "set_ref tree form =
     (case xpath_all ''InvoiceNumber'' tree of [] \<Rightarrow> form | el # _ \<Rightarrow> form\<lparr>form_ref := text_of el\<rparr>)"

definition set_payment_reference :: "xml \<Rightarrow> invoice_form \<Rightarrow> invoice_form" where
  "set_payment_reference tree form =
     (case xpath_all ''EpiReference'' tree of
        [] \<Rightarrow> form
      | el # _ \<Rightarrow> form\<lparr>form_payment_reference := text_of el\<rparr>)"

text \<open>\<^verbatim>\<open>f'{x}'\<close> of a string or \<^verbatim>\<open>None\<close>.\<close>

definition py_str :: "string option \<Rightarrow> string" where
  "py_str x = (case x of None \<Rightarrow> ''None'' | Some s \<Rightarrow> s)"

definition newline :: string where
  "newline = [CHR 0x0A]"

text \<open>\<^verbatim>\<open>account_details += "\n" + el.text\<close> for each account element, after the title.\<close>

fun account_lines :: "string \<Rightarrow> xml list \<Rightarrow> py_error + string" where
  "account_lines acc [] = Inr acc"
| "account_lines acc (el # els) =
     (case text_of el of
        None \<Rightarrow> Inl (TypeError ''can only concatenate str (not NoneType) to str'')
      | Some s \<Rightarrow> account_lines (acc @ newline @ s) els)"

definition account_details :: "xml list \<Rightarrow> py_error + string option list" where
  "account_details elements =
     (if elements = [] then Inr []
      else
        (let title = (if length elements = 1 then ''Account number from invoice''
                      else ''Account numbers from invoice'')
         in case account_lines (title @ '':'') elements of
              Inl err \<Rightarrow> Inl err
            | Inr s \<Rightarrow> Inr [Some s]))"

text \<open>\<^verbatim>\<open>sep.join(xs)\<close> where an item may be \<^verbatim>\<open>None\<close>: \<^verbatim>\<open>TypeError\<close>.\<close>

definition join_items :: "string \<Rightarrow> string option list \<Rightarrow> py_error + string" where
  "join_items sep xs =
     (if None \<in> set xs then Inl (TypeError ''sequence item: expected str instance, NoneType found'')
      else Inr (join sep (map py_str xs)))"

definition narration :: "xml \<Rightarrow> py_error + string" where
  "narration tree =
     (let amount_part =
            (case xpath_all ''InvoiceTotalVatIncludedAmount'' tree of
               [] \<Rightarrow> []
             | el # _ \<Rightarrow>
                 [Some (''Original amount from invoice'' @ '': '' @ py_str (text_of el) @ '' '' @
                        py_str (map_of (attrib el) ''AmountCurrencyIdentifier''))])
      in case account_details (xpath_all ''SellerAccountID'' tree) of
           Inl err \<Rightarrow> Inl err
         | Inr account_part \<Rightarrow>
             (let free_text_part =
                    (case xpath_all ''InvoiceFreeText'' tree of [] \<Rightarrow> [] | el # _ \<Rightarrow> [text_of el])
              in join_items (newline @ newline) (amount_part @ account_part @ free_text_part)))"

text \<open>
  \<^verbatim>\<open>
  elements = tree.xpath('//InvoiceTotalVatIncludedAmount')
  if elements:
      if elements[0].attrib.get('AmountCurrencyIdentifier'):
          currency_str = elements[0].attrib['AmountCurrencyIdentifier']
          currency = self.env.ref('base.%s' % currency_str.upper(), raise_if_not_found=False)
          if currency != self.env.company.currency_id and currency.active:
              invoice_form.currency_id = currency
  \<close>
  When the lookup finds nothing, \<open>currency\<close> is \<^verbatim>\<open>None\<close>: it differs from the company's
  currency, and reading \<^verbatim>\<open>currency.active\<close> raises \<^verbatim>\<open>AttributeError\<close>.
\<close>

definition import_currency :: "env \<Rightarrow> xml \<Rightarrow> invoice_form \<Rightarrow> py_error + invoice_form" where
  "import_currency e tree form =
     (case xpath_all ''InvoiceTotalVatIncludedAmount'' tree of
        [] \<Rightarrow> Inr form
      | el # _ \<Rightarrow>
          (case map_of (attrib el) ''AmountCurrencyIdentifier'' of
             None \<Rightarrow> Inr form
           | Some currency_str \<Rightarrow>
               if currency_str = [] then Inr form
               else
                 (case ref_currency e currency_str of
                    None \<Rightarrow> Inl (AttributeError ''active'')
                  | Some cur \<Rightarrow>
                      if currency_id_no cur \<noteq> currency_id_no (currency_id (env_company e)) \<and> active cur
                      then Inr (form\<lparr>form_currency_id := cur\<rparr>)
                      else Inr form)))"

text \<open>
  \<^verbatim>\<open>
  date_obj = datetime.strptime(elements[0].text, '%Y%m%d')
  invoice_form.<field> = date_obj.strftime(DEFAULT_SERVER_DATE_FORMAT)
  \<close>
\<close>

definition import_date :: "env \<Rightarrow> xml list \<Rightarrow> py_error + string option" where
  "import_date e elements =
     (case elements of
        [] \<Rightarrow> Inr None
      | el # _ \<Rightarrow>
          (case text_of el of
             None \<Rightarrow> Inl (TypeError ''strptime() argument 1 must be str, not None'')
           | Some date_str \<Rightarrow>
               (case strptime_ymd e date_str of
                  None \<Rightarrow> Inl (ValueError ''time data does not match format'')
                | Some d \<Rightarrow> Inr (Some d))))"

text \<open>A numeric field of a line: set when the row has the element.\<close>

definition import_number :: "env \<Rightarrow> xml list \<Rightarrow> rat \<Rightarrow> py_error + rat" where
  "import_number e line_elements dflt =
     (case line_elements of [] \<Rightarrow> Inr dflt | el # _ \<Rightarrow> parse_decimal e (text_of el))"

text \<open>
  \<^verbatim>\<open>
  for tax_element in line_elements:
      percentage = float(tax_element.text.replace(',', '.'))
      tax = self.env['account.tax'].search([...], limit=1)
      if tax:
          invoice_line_form.tax_ids.add(tax)
  \<close>
\<close>

fun import_taxes :: "env \<Rightarrow> invoice_form \<Rightarrow> nat list \<Rightarrow> xml list \<Rightarrow> py_error + nat list" where
  "import_taxes e form acc [] = Inr acc"
| "import_taxes e form acc (tax_element # rest) =
     (case parse_decimal e (text_of tax_element) of
        Inl err \<Rightarrow> Inl err
      | Inr percentage \<Rightarrow>
          (case search_tax e (form_company_id form) (form_journal_type form) percentage of
             None \<Rightarrow> import_taxes e form acc rest
           | Some tax \<Rightarrow> import_taxes e form (acc @ [tax]) rest))"

definition import_line :: "env \<Rightarrow> invoice_form \<Rightarrow> xml \<Rightarrow> py_error + form_line" where
  "import_line e form element =
     (let l0 = new_form_line e form;
          l1 = (case xpath_below ''ArticleName'' element of
                  [] \<Rightarrow> l0
                | el # _ \<Rightarrow> l0\<lparr>fl_name := text_of el\<rparr>)
      in case import_number e (xpath_below ''DeliveredQuantity'' element) (fl_quantity l1) of
           Inl err \<Rightarrow> Inl err
         | Inr q \<Rightarrow>
        (case import_number e (xpath_below ''UnitPriceAmount'' element) (fl_price_unit l1) of
           Inl err \<Rightarrow> Inl err
         | Inr p \<Rightarrow>
        (case import_number e (xpath_below ''RowDiscountPercent'' element) (fl_discount l1) of
           Inl err \<Rightarrow> Inl err
         | Inr d \<Rightarrow>
        (case import_taxes e form [] (xpath_below ''RowVatRatePercent'' element) of
           Inl err \<Rightarrow> Inl err
         | Inr ts \<Rightarrow>
             Inr (l1\<lparr>fl_quantity := q, fl_price_unit := p, fl_discount := d, fl_tax_ids := ts\<rparr>)))))"

fun import_lines :: "env \<Rightarrow> invoice_form \<Rightarrow> xml list \<Rightarrow> py_error + invoice_form" where
  "import_lines e form [] = Inr form"
| "import_lines e form (element # rest) =
     (case import_line e form element of
        Inl err \<Rightarrow> Inl err
      | Inr l \<Rightarrow>
          import_lines e (form\<lparr>form_invoice_line_ids := form_invoice_line_ids form @ [l]\<rparr>) rest)"

text \<open>The body of \<^verbatim>\<open>with Form(...) as invoice_form:\<close>, in the order of the source.\<close>

definition fill_form :: "env \<Rightarrow> xml \<Rightarrow> invoice_form \<Rightarrow> py_error + invoice_form" where
  "fill_form e tree form0 =
     (let form1 = set_payment_reference tree (set_ref tree (set_partner e tree form0))
      in case narration tree of
           Inl err \<Rightarrow> Inl err
         | Inr narration_text \<Rightarrow>
        (case import_currency e tree (form1\<lparr>form_narration := narration_text\<rparr>) of
           Inl err \<Rightarrow> Inl err
         | Inr form2 \<Rightarrow>
        (case import_date e (xpath_all ''InvoiceDate'' tree) of
           Inl err \<Rightarrow> Inl err
         | Inr d \<Rightarrow>
        (let form3 = (case d of None \<Rightarrow> form2 | Some s \<Rightarrow> form2\<lparr>form_invoice_date := Some s\<rparr>)
         in case import_date e (xpath_all ''InvoiceDueDate'' tree) of
              Inl err \<Rightarrow> Inl err
            | Inr dd \<Rightarrow>
                (let form4 = (case dd of None \<Rightarrow> form3
                              | Some s \<Rightarrow> form3\<lparr>form_invoice_date_due := Some s\<rparr>)
                 in import_lines e form4 (xpath_all ''InvoiceRow'' tree))))))"

text \<open>\<^verbatim>\<open>invoice_form.save()\<close>: the new invoice's id and the new table.\<close>

definition save_form :: "invoice_form \<Rightarrow> world \<Rightarrow> nat \<times> world" where
  "save_form form w = (length (moves w), w\<lparr>moves := moves w @ [form]\<rparr>)"

definition import_finvoice :: "env \<Rightarrow> xml \<Rightarrow> world \<Rightarrow> (py_error + nat) \<times> world" where
  "import_finvoice e tree w =
     (let company = import_company e tree
      in case check_company e company of
           Inl err \<Rightarrow> (Inl err, w)
         | Inr _ \<Rightarrow>
        (case total_amount e tree of
           Inl err \<Rightarrow> (Inl err, w)
         | Inr total_value \<Rightarrow>
             (let default_move_type = (if total_value < 0 then ''in_refund'' else ''in_invoice'');
                  form0 = new_form e (map_option company_id_no (resolve_company e tree)) default_move_type
              in case fill_form e tree form0 of
                   Inl err \<Rightarrow> (Inl err, w)
                 | Inr form \<Rightarrow> (let (move, w1) = save_form form w in (Inr move, w1)))))"

section \<open>Apix client\<close>

subsection \<open>Listing\<close>

text \<open>
  \<^verbatim>\<open>
  def extract_content_from_group(group):
      file = {}
      for value in group.xpath('./Value'):
          file[value.xpath('./@type')[0]] = value.xpath('./text()')[0]
      return file
  \<close>
\<close>

fun extract_values :: "(string \<times> string) list \<Rightarrow> xml list \<Rightarrow> py_error + (string \<times> string) list" where
  "extract_values file [] = Inr file"
| "extract_values file (v # vs) =
     (case py_index (xpath_text v) 0 of
        Inl err \<Rightarrow> Inl err
      | Inr t \<Rightarrow>
          (case py_index (xpath_attr ''type'' v) 0 of
             Inl err \<Rightarrow> Inl err
           | Inr k \<Rightarrow> extract_values (dict_set file k t) vs))"

definition extract_content_from_group :: "xml \<Rightarrow> py_error + (string \<times> string) list" where
  "extract_content_from_group grp = extract_values [] (child_elements ''Value'' grp)"

text \<open>\<^verbatim>\<open>list(map(f, xs))\<close> for an \<open>f\<close> that may raise: the first exception ends it.\<close>

fun map_raising :: "('a \<Rightarrow> py_error + 'b) \<Rightarrow> 'a list \<Rightarrow> py_error + 'b list" where
  "map_raising f [] = Inr []"
| "map_raising f (x # xs) =
     (case f x of
        Inl err \<Rightarrow> Inl err
      | Inr y \<Rightarrow> (case map_raising f xs of Inl err \<Rightarrow> Inl err | Inr ys \<Rightarrow> Inr (y # ys)))"

text \<open>
  \<^verbatim>\<open>params = {'TraID': company.ahkio_apix_transfer_id, 't': datetime.now().strftime(...)}
  params['d'] = self._calculate_digest(params, company.ahkio_apix_transfer_key)\<close>
\<close>

definition list_params :: "env \<Rightarrow> company \<Rightarrow> py_error + (string \<times> string) list" where
  "list_params e c =
     (case ahkio_apix_transfer_id c of
        None \<Rightarrow> Inl (TypeError ''sequence item 0: expected str instance, bool found'')
      | Some transfer_id \<Rightarrow>
          (case ahkio_apix_transfer_key c of
             None \<Rightarrow> Inl (TypeError ''sequence item 2: expected str instance, bool found'')
           | Some transfer_key \<Rightarrow>
               (let params = [(''TraID'', transfer_id), (''t'', clock_t e)]
                in Inr (dict_set params ''d'' (calculate_digest params transfer_key)))))"

definition list_url :: "env \<Rightarrow> string" where
  "list_url e =
     (if apix_env_param e = ''test'' then ''https://test-terminal.apix.fi/list2''
      else ''https://terminal.apix.fi/list2'')"

text \<open>
  \<^verbatim>\<open>raise response.text\<close>: the operand is a \<^verbatim>\<open>str\<close>, not an exception, so what Python 3
  raises is \<^verbatim>\<open>TypeError: exceptions must derive from BaseException\<close>; the text is
  not part of it.
\<close>

definition raise_str :: "string \<Rightarrow> py_error" where
  "raise_str s = TypeError ''exceptions must derive from BaseException''"

definition list_invoice_zips ::
  "env \<Rightarrow> company \<Rightarrow> world \<Rightarrow> (py_error + (string \<times> string) list list) \<times> world" where
  "list_invoice_zips e c w =
     (case list_params e c of
        Inl err \<Rightarrow> (Inl err, w)
      | Inr ps \<Rightarrow>
          (let (response, w1) =
                 send e \<lparr>http_method = ''GET'', url = list_url e, params = ps, body = []\<rparr> w
           in case response_status e response of
                Inl err \<Rightarrow> (Inl err, w1)
              | Inr (response_body_xml, st) \<Rightarrow>
                  if st \<noteq> Some ''OK'' then (Inl (raise_str (response_text response)), w1)
                  else
                    (map_raising extract_content_from_group
                       (xpath_abs3 ''Response'' ''Content'' ''Group'' response_body_xml), w1)))"

subsection \<open>Download\<close>

text \<open>\<^verbatim>\<open>file[key]\<close> on a dictionary: \<^verbatim>\<open>KeyError\<close> when the key is missing.\<close>

definition dict_get :: "(string \<times> 'v) list \<Rightarrow> string \<Rightarrow> py_error + 'v" where
  "dict_get d k = (case map_of d k of None \<Rightarrow> Inl (KeyError k) | Some v \<Rightarrow> Inr v)"

text \<open>
  \<^verbatim>\<open>
  self.env['ir.attachment'].sudo().search([
      ('name', '=', f'{filename}.zip'), ('res_model', '=', 'account.move')], limit=1)
  \<close>
\<close>

definition existing_attachment :: "world \<Rightarrow> string \<Rightarrow> attachment option" where
  "existing_attachment w filename =
     find (\<lambda>a. att_name a = filename @ ''.zip'' \<and> att_res_model a = Some ''account.move'')
       (attachments w)"

definition download_params :: "env \<Rightarrow> string \<Rightarrow> string \<Rightarrow> (string \<times> string) list" where
  "download_params e storage_id storage_key =
     (let params = [(''markreceived'', ''yes''), (''SID'', storage_id), (''t'', clock_t e)]
      in dict_set params ''d'' (calculate_digest params storage_key))"

definition download_url :: "env \<Rightarrow> string" where
  "download_url e =
     (if apix_env_param e = ''test'' then ''https://test-terminal.apix.fi/download''
      else ''https://terminal.apix.fi/download'')"

text \<open>
  \<^verbatim>\<open>re.match(r'^file:\/\/(?P<filename>.+)$', uri)\<close>: after the prefix at least one
  character and no line break, but for one at the very end, which is not part of the
  name.
\<close>

definition match_file_uri :: "string \<Rightarrow> string option" where
  "match_file_uri uri =
     (if take 7 uri = ''file://'' then
        (let r = drop 7 uri;
             r' = (if r \<noteq> [] \<and> last r = CHR 0x0A then butlast r else r)
         in if r' \<noteq> [] \<and> CHR 0x0A \<notin> set r' then Some r' else None)
      else None)"

text \<open>
  The loop over the \<^verbatim>\<open>InvoiceUrlText\<close> elements. It rebinds \<^verbatim>\<open>filename\<close>; the state
  is that variable and the attachment files found. \<^verbatim>\<open>re.match\<close> raises
  \<^verbatim>\<open>TypeError\<close> on \<^verbatim>\<open>None\<close>; the warning for a URI that does not match reads
  \<^verbatim>\<open>file['DocumentID']\<close>.
\<close>

fun attachment_loop ::
  "(string \<times> string) list \<Rightarrow> (string \<times> string) list \<Rightarrow> string \<times> (string \<times> string) list \<Rightarrow>
   xml list \<Rightarrow> py_error + string \<times> (string \<times> string) list" where
  "attachment_loop file entries st [] = Inr st"
| "attachment_loop file entries st (el # els) =
     (case text_of el of
        None \<Rightarrow> Inl (TypeError ''expected string or bytes-like object'')
      | Some filename_uri \<Rightarrow>
          (case match_file_uri filename_uri of
             None \<Rightarrow>
               (case dict_get file ''DocumentID'' of
                  Inl err \<Rightarrow> Inl err
                | Inr _ \<Rightarrow> attachment_loop file entries st els)
           | Some filename \<Rightarrow>
               (case map_of entries filename of
                  None \<Rightarrow> attachment_loop file entries (filename, snd st) els
                | Some content \<Rightarrow>
                    attachment_loop file entries (filename, dict_set (snd st) filename content) els)))"

text \<open>Creating one attachment per extracted file, linked to the invoice.\<close>

fun create_invoice_attachments :: "nat \<Rightarrow> (string \<times> string) list \<Rightarrow> world \<Rightarrow> nat list \<times> world" where
  "create_invoice_attachments move [] w = ([], w)"
| "create_invoice_attachments move ((attachment_filename, attachment_file) # rest) w =
     (let (a, w1) =
            create_attachment
              \<lparr>att_name = attachment_filename, att_data = attachment_file, att_mimetype = None,
               att_type = Some ''binary'', att_res_model = Some ''account.move'',
               att_res_id = Some move\<rparr> w;
          (ids, w2) = create_invoice_attachments move rest w1
      in (a # ids, w2))"

definition message_post :: "nat \<Rightarrow> string \<Rightarrow> nat list \<Rightarrow> world \<Rightarrow> world" where
  "message_post move body_text attachment_ids w =
     w\<lparr>messages := messages w @ [(move, body_text, attachment_ids)]\<rparr>"

text \<open>
  The part of \<open>download\<close> after the request: the zip is stored as an attachment
  whatever the status code, then opened, the document parsed and imported, and the
  attachments linked. \<open>None\<close> is the empty record set \<^verbatim>\<open>self.env['account.move']\<close>.
\<close>

definition store_and_import ::
  "env \<Rightarrow> (string \<times> string) list \<Rightarrow> string \<Rightarrow> http_response \<Rightarrow> world \<Rightarrow>
   (py_error + nat option) \<times> world" where
  "store_and_import e file filename response w1 =
     (case (if status_code response \<noteq> 200 then dict_get file ''DocumentID'' else Inr []) of
        Inl err \<Rightarrow> (Inl err, w1)
      | Inr _ \<Rightarrow>
     (let (zip_attachment, w2) =
            create_attachment
              \<lparr>att_name = filename @ ''.zip'', att_data = response_text response, att_mimetype = None,
               att_type = Some ''binary'', att_res_model = Some ''account.move'', att_res_id = None\<rparr> w1
      in case zip_read e (response_text response) of
           None \<Rightarrow> (Inl BadZipFile, w2)
         | Some entries \<Rightarrow>
        (case dict_get file ''DocumentName'' of
           Inl err \<Rightarrow> (Inl err, w2)
         | Inr document_name \<Rightarrow>
        (case dict_get entries document_name of
           Inl err \<Rightarrow> (Inl err, w2)
         | Inr xml_doc \<Rightarrow>
        (case fromstring e xml_doc of
           None \<Rightarrow>
             (case dict_get file ''DocumentID'' of
                Inl err \<Rightarrow> (Inl err, w2)
              | Inr _ \<Rightarrow> (Inr None, w2))
         | Some tree \<Rightarrow>
        (case attachment_loop file entries (filename, []) (xpath_all ''InvoiceUrlText'' tree) of
           Inl err \<Rightarrow> (Inl err, w2)
         | Inr (filename', attachment_files) \<Rightarrow>
        (case import_finvoice e tree w2 of
           (Inl err, w3) \<Rightarrow> (Inl err, w3)
         | (Inr move, w3) \<Rightarrow>
             (let w4 = w3\<lparr>attachments :=
                          (attachments w3)[zip_attachment :=
                             (attachments w3 ! zip_attachment)\<lparr>att_res_id := Some move\<rparr>]\<rparr>;
                  w5 = message_post move ''Apix invoice zip'' [zip_attachment] w4;
                  (invoice_attachment_ids, w6) = create_invoice_attachments move attachment_files w5;
                  w7 = (if invoice_attachment_ids \<noteq> []
                        then message_post move ''Invoice attachments'' invoice_attachment_ids w6
                        else w6)
              in (Inr (Some move), w7\<lparr>commits := commits w7 + 1\<rparr>)))))))))"

text \<open>
  \<open>download\<close>: the three early returns, then the request.
  \<^verbatim>\<open>
  if file['StorageStatus'] == 'NEW':
      return self.env['account.move']
  if storage_status and file['StorageStatus'] != storage_status:
      return self.env['account.move']
  filename = f"apix_in_invoice_{file['StorageID']}"
  existing = self.env['ir.attachment'].sudo().search([...], limit=1)
  if existing:
      return self.env['account.move']
  \<close>
\<close>

definition download ::
  "env \<Rightarrow> (string \<times> string) list \<Rightarrow> string option \<Rightarrow> world \<Rightarrow> (py_error + nat option) \<times> world" where
  "download e file storage_status w =
     (case dict_get file ''StorageStatus'' of
        Inl err \<Rightarrow> (Inl err, w)
      | Inr status \<Rightarrow>
          if status = ''NEW'' then (Inr None, w)
          else if truthy storage_status \<and> Some status \<noteq> storage_status then (Inr None, w)
          else
            (case dict_get file ''StorageID'' of
               Inl err \<Rightarrow> (Inl err, w)
             | Inr storage_id \<Rightarrow>
                 (let filename = ''apix_in_invoice_'' @ storage_id
                  in if existing_attachment w filename \<noteq> None then (Inr None, w)
                     else
                       (case dict_get file ''StorageKey'' of
                          Inl err \<Rightarrow> (Inl err, w)
                        | Inr storage_key \<Rightarrow>
                            (let (response, w1) =
                                   send e \<lparr>http_method = ''GET'', url = download_url e,
                                           params = download_params e storage_id storage_key,
                                           body = []\<rparr> w
                             in store_and_import e file filename response w1)))))"

section \<open>The specification's vocabulary\<close>

text \<open>
  The mandatory fields, in the check order of the specification (section 4.3): what it
  means for each to be missing, and the message of the error that names it.
\<close>

datatype required_field =
    SenderRegistry | RecipientRegistry | ShippingRegistry
  | SenderBankAccount | TransferId | TransferKey
  | SenderOVT | RecipientOVT | ShippingOVT
  | SenderEInvoiceAddress | RecipientEInvoiceAddress
  | SenderIntermediator | RecipientIntermediator

definition check_order :: "required_field list" where
  "check_order =
     [SenderRegistry, RecipientRegistry, ShippingRegistry, SenderBankAccount, TransferId,
      TransferKey, SenderOVT, RecipientOVT, ShippingOVT, SenderEInvoiceAddress,
      RecipientEInvoiceAddress, SenderIntermediator, RecipientIntermediator]"

text \<open>A shipping contact exists when the invoice model has the field and the field is set.\<close>

definition shipping_contact :: "invoice \<Rightarrow> partner option" where
  "shipping_contact invoice =
     (if has_partner_shipping_field invoice then partner_shipping_id invoice else None)"

fun is_missing :: "invoice \<Rightarrow> required_field \<Rightarrow> bool" where
  "is_missing invoice SenderRegistry = (\<not> truthy (company_registry (company_id invoice)))"
| "is_missing invoice RecipientRegistry = (\<not> truthy (ahkio_company_registry (commercial_partner_id invoice)))"
| "is_missing invoice ShippingRegistry =
     (case shipping_contact invoice of None \<Rightarrow> False | Some p \<Rightarrow> \<not> truthy (ahkio_company_registry p))"
| "is_missing invoice SenderBankAccount = (bank_ids (company_partner_id (company_id invoice)) = [])"
| "is_missing invoice TransferId = (\<not> truthy (ahkio_apix_transfer_id (company_id invoice)))"
| "is_missing invoice TransferKey = (\<not> truthy (ahkio_apix_transfer_key (company_id invoice)))"
| "is_missing invoice SenderOVT =
     (\<not> truthy (ahkio_organisation_unit_number (company_partner_id (company_id invoice))))"
| "is_missing invoice RecipientOVT =
     (\<not> truthy (ahkio_organisation_unit_number (commercial_partner_id invoice)))"
| "is_missing invoice ShippingOVT =
     (case shipping_contact invoice of None \<Rightarrow> False
      | Some p \<Rightarrow> \<not> truthy (ahkio_organisation_unit_number p))"
| "is_missing invoice SenderEInvoiceAddress =
     (\<not> truthy (ahkio_e_invoice_address (company_partner_id (company_id invoice))))"
| "is_missing invoice RecipientEInvoiceAddress =
     (\<not> truthy (ahkio_e_invoice_address (commercial_partner_id invoice)))"
| "is_missing invoice SenderIntermediator =
     (\<not> truthy (ahkio_e_invoice_intermediator (company_partner_id (company_id invoice))))"
| "is_missing invoice RecipientIntermediator =
     (\<not> truthy (ahkio_e_invoice_intermediator (commercial_partner_id invoice)))"

fun missing_message :: "required_field \<Rightarrow> string" where
  "missing_message SenderRegistry = ''Company registry (y-tunnus) missing from sender.''"
| "missing_message RecipientRegistry = ''Company registry (y-tunnus) missing from recipient.''"
| "missing_message ShippingRegistry = ''Company registry (y-tunnus) missing from shipping contact.''"
| "missing_message SenderBankAccount = ''No bank accounts configured for sender.''"
| "missing_message TransferId = ''Apix transfer id missing from company config.''"
| "missing_message TransferKey = ''Apix transfer key missing from company config.''"
| "missing_message SenderOVT = ''Organisation unit number (OVT) missing from sender.''"
| "missing_message RecipientOVT = ''Organisation unit number (OVT) missing from recipient.''"
| "missing_message ShippingOVT = ''Organisation unit number (OVT) missing from shipping contact.''"
| "missing_message SenderEInvoiceAddress = ''E-invoice address missing from sender.''"
| "missing_message RecipientEInvoiceAddress = ''E-invoice address missing from recipient.''"
| "missing_message SenderIntermediator = ''E-invoice intermediator missing from sender.''"
| "missing_message RecipientIntermediator = ''E-invoice intermediator missing from recipient.''"

text \<open>Records to evaluate the functions on.\<close>

definition example_partner :: partner where
  "example_partner =
     \<lparr>partner_id_no = 7, ahkio_company_registry = Some ''1234567-8'',
      ahkio_organisation_unit_number = Some ''003712345678'',
      ahkio_e_invoice_address = Some ''003712345678'',
      ahkio_e_invoice_intermediator = Some ''BANKFIHH'', bank_ids = [1]\<rparr>"

definition example_currency :: currency where
  "example_currency = \<lparr>currency_id_no = 1, decimal_places = 2, active = True\<rparr>"

definition example_company :: company where
  "example_company =
     \<lparr>company_id_no = 1, display_name = ''Seller Oy'', company_registry = Some ''7654321-0'',
      vat = Some ''FI76543210'', company_partner_id = example_partner\<lparr>partner_id_no := 1\<rparr>,
      ahkio_apix_transfer_id = Some ''tra-1'', ahkio_apix_transfer_key = Some ''secret'',
      currency_id = example_currency\<rparr>"

definition example_invoice :: invoice where
  "example_invoice =
     \<lparr>invoice_id_no = 1, name = ''INV/2023/0001'', move_type = ''out_invoice'',
      company_id = example_company, partner_id = example_partner,
      commercial_partner_id = example_partner, has_partner_shipping_field = True,
      partner_shipping_id = None, line_ids = [], invoice_line_ids = []\<rparr>"

definition example_form :: invoice_form where
  "example_form =
     \<lparr>form_move_type = ''in_invoice'', form_company_id = 1, form_journal_type = ''purchase'',
      form_partner_id = None, form_ref = None, form_payment_reference = None,
      form_narration = [], form_currency_id = example_currency, form_invoice_date = None,
      form_invoice_date_due = None, form_invoice_line_ids = []\<rparr>"

text \<open>
  An environment: a tax engine that applies 24 % for tax 1 and 0 % for any other tax to
  each tax of the line, a parser that knows one failure response, a server that answers
  with it, and record searches that find nothing.
\<close>

definition failure_body :: string where
  "failure_body = ''<Response><Status>ERROR</Status></Response>''"

definition failure_tree :: xml where
  "failure_tree = Element ''Response'' [] None [Element ''Status'' [] (Some ''ERROR'') [] None] None"

definition example_env :: env where
  "example_env =
     \<lparr>apix_env_param = ''test'',
      clock_message = ''20230101120000'',
      clock_timestamp = ''2023-01-01T12:00:00+02:00'',
      clock_t = ''20230101120000'',
      compute_all = (\<lambda>invoice line p.
         \<lparr>total_excluded = p * quantity line,
          taxes = map (\<lambda>t. \<lparr>tax_res_id = t,
                              tax_res_amount = p * quantity line * (if t = 1 then 24 else 0) / 100,
                              tax_res_base = p * quantity line\<rparr>) (tax_ids line)\<rparr>),
      render_qweb_pdf = (\<lambda>invoice. ''%PDF''),
      render_template = (\<lambda>v. ''<Finvoice/>''),
      zip_write = (\<lambda>entries. concat (map (\<lambda>(n, c). n @ c) entries)),
      zip_read = (\<lambda>content. None),
      temp_basename = (\<lambda>prefix suffix. prefix @ ''tmp'' @ suffix),
      fromstring = (\<lambda>s. if s = failure_body then Some failure_tree else None),
      http = (\<lambda>req. \<lparr>status_code = 200, response_text = failure_body\<rparr>),
      is_superuser = False,
      env_company = example_company,
      search_company_by_ovt = (\<lambda>t. None),
      search_company_by_registry = (\<lambda>t. None),
      search_company_by_vat = (\<lambda>t. None),
      search_partner_by_ovt = (\<lambda>t. None),
      search_partner_by_registry = (\<lambda>t. None),
      search_partner_by_vat = (\<lambda>t. None),
      ref_currency = (\<lambda>s. if s = ''EUR'' then Some example_currency else None),
      search_tax = (\<lambda>c j p. None),
      float_of_string = (\<lambda>s. if s = ''100.00'' then Some 100 else None),
      strptime_ymd = (\<lambda>s. None),
      new_form = (\<lambda>c t. example_form\<lparr>form_move_type := t\<rparr>),
      new_form_line = (\<lambda>form. \<lparr>fl_name = None, fl_quantity = 1, fl_price_unit = 0,
                                fl_discount = 0, fl_tax_ids = []\<rparr>)\<rparr>"

definition empty_world :: world where
  "empty_world = \<lparr>http_log = [], attachments = [], moves = [], messages = [], commits = 0\<rparr>"

text \<open>A document whose total carries a currency identifier that no currency record has.\<close>

definition unknown_currency_tree :: xml where
  "unknown_currency_tree =
     Element ''Finvoice'' [] None
       [Element ''InvoiceTotalVatIncludedAmount'' [(''AmountCurrencyIdentifier'', ''XXX'')]
          (Some ''100,00'') [] None] None"

text \<open>A document addressed to a company by its registry number.\<close>

definition other_company :: company where
  "other_company = example_company\<lparr>company_id_no := 2, display_name := ''Buyer Oy''\<rparr>"

definition other_company_tree :: xml where
  "other_company_tree =
     Element ''Finvoice'' [] None
       [Element ''BuyerPartyIdentifier'' [] (Some ''2222222-2'') [] None] None"

text \<open>The same environment with a second company on record, found by its registry number.\<close>

definition other_company_env :: env where
  "other_company_env =
     example_env\<lparr>search_company_by_registry :=
       (\<lambda>t. if t = Some ''2222222-2'' then Some other_company else None)\<rparr>"

text \<open>
  For the tax lines of the document: the order of first appearance in a list, the tax ids
  of the invoice's tax journal items, the last journal item of a tax, and the tax results
  the tax engine gives for the invoice lines, in line order.
\<close>

fun first_seen :: "'a list \<Rightarrow> 'a list" where
  "first_seen [] = []"
| "first_seen (x # xs) = x # filter (\<lambda>y. y \<noteq> x) (first_seen xs)"

definition tax_line_keys :: "invoice \<Rightarrow> nat list" where
  "tax_line_keys invoice = List.map_filter tax_line_id (line_ids invoice)"

definition last_tax_line :: "invoice \<Rightarrow> nat \<Rightarrow> move_line" where
  "last_tax_line invoice k = last (filter (\<lambda>l. tax_line_id l = Some k) (line_ids invoice))"

definition line_tax_results :: "env \<Rightarrow> invoice \<Rightarrow> tax_res list" where
  "line_tax_results e invoice =
     concat (map (\<lambda>l. taxes (line_taxes_res e invoice l)) (product_lines invoice))"

definition bases_for :: "env \<Rightarrow> invoice \<Rightarrow> nat \<Rightarrow> rat list" where
  "bases_for e invoice k =
     map tax_res_base (filter (\<lambda>tr. tax_res_id tr = k) (line_tax_results e invoice))"

text \<open>
  An invoice of three lines, two taxed with tax 1 (24 %) and one with tax 2 (0 %), and
  its journal: one tax line, for tax 1. (The zero tax has no amount to post.)
\<close>

definition three_lines :: "invoice_line list" where
  "three_lines =
     [\<lparr>display_type = None, price_unit = 100, discount = 0, quantity = 1, tax_ids = [1],
       product_id = None\<rparr>,
      \<lparr>display_type = None, price_unit = 50, discount = 0, quantity = 1, tax_ids = [1],
       product_id = None\<rparr>,
      \<lparr>display_type = None, price_unit = 10, discount = 0, quantity = 1, tax_ids = [2],
       product_id = None\<rparr>]"

definition tax_line_1 :: move_line where
  "tax_line_1 = \<lparr>tax_line_id = Some 1, line_currency_id = None, amount_currency = 0, balance = - 36\<rparr>"

definition tax_line_2 :: move_line where
  "tax_line_2 = \<lparr>tax_line_id = Some 2, line_currency_id = None, amount_currency = 0, balance = 0\<rparr>"

definition one_tax_line_invoice :: invoice where
  "one_tax_line_invoice = example_invoice\<lparr>line_ids := [tax_line_1], invoice_line_ids := three_lines\<rparr>"

definition two_tax_lines_invoice :: invoice where
  "two_tax_lines_invoice =
     example_invoice\<lparr>line_ids := [tax_line_1, tax_line_2], invoice_line_ids := three_lines\<rparr>"

text \<open>The key and entry of each tax journal item, as the dictionary comprehension visits them.\<close>

definition tax_line_pairs :: "move_line list \<Rightarrow> (nat \<times> tax_detail) list" where
  "tax_line_pairs ls =
     List.map_filter
       (\<lambda>line. case tax_line_id line of None \<Rightarrow> None | Some t \<Rightarrow> Some (t, tax_line_entry line)) ls"

text \<open>The parameter sets of the requests sent between two states of the world.\<close>

definition sent_params :: "world \<Rightarrow> world \<Rightarrow> (string \<times> string) list list" where
  "sent_params w w' = map params (drop (length (http_log w)) (http_log w'))"






section \<open>Properties\<close>

subsection \<open>Field formatters\<close>

lemma py_index_last: "xs \<noteq> [] \<Longrightarrow> py_index xs (- 1) = Inr (last xs)"
  by (cases xs rule: rev_cases) (auto simp: py_index_def nth_append)

lemma py_index_empty: "py_index [] i = Inl IndexError"
  by (simp add: py_index_def)

lemma py_slice_2_m1: "py_slice xs 2 (- 1) = drop 2 (butlast xs)"
  by (auto simp: py_slice_def py_bound_def Let_def butlast_conv_take nat_diff_distrib' max_def min_def)

lemma vat_nonempty:
  "v \<noteq> [] \<Longrightarrow>
   vat_number_in_finnish_format v = Inr (drop 2 (butlast v) @ code_points ''-'' @ [last v])"
  by (simp add: vat_number_in_finnish_format_def py_index_last py_slice_2_m1)

text \<open>
  C8. An input of at least three code points, read as a two-character prefix \<open>p\<close>, a
  body \<open>b\<close> and a last character \<open>l\<close>, gives \<open>b\<close>, a hyphen and \<open>l\<close>. Below
  three characters the specification leaves the result undefined; there the code fails
  on the empty input (\<^verbatim>\<open>IndexError\<close>) and returns a hyphen and the last character on
  an input of one or two characters.
\<close>

theorem vat_number_in_finnish_format_cases:
  "(\<forall>p b l. vat_number = p @ b @ [l] \<and> length p = 2 \<longrightarrow>
      vat_number_in_finnish_format vat_number = Inr (b @ code_points ''-'' @ [l])) \<and>
   (length vat_number = 1 \<or> length vat_number = 2 \<longrightarrow>
      vat_number_in_finnish_format vat_number = Inr (code_points ''-'' @ [last vat_number])) \<and>
   (vat_number = [] \<longrightarrow> vat_number_in_finnish_format vat_number = Inl IndexError)"
proof (intro conjI allI impI)
  fix p b l
  assume h: "vat_number = p @ b @ [l] \<and> length p = 2"
  then have "vat_number \<noteq> []" by auto
  moreover from h have "butlast vat_number = p @ b"
    by (simp add: butlast_append)
  ultimately show "vat_number_in_finnish_format vat_number = Inr (b @ code_points ''-'' @ [l])"
    using h by (simp add: vat_nonempty)
next
  assume h: "length vat_number = 1 \<or> length vat_number = 2"
  then have "vat_number \<noteq> []" by auto
  moreover from h have "drop 2 (butlast vat_number) = []" by auto
  ultimately show
    "vat_number_in_finnish_format vat_number = Inr (code_points ''-'' @ [last vat_number])"
    by (simp add: vat_nonempty)
next
  assume "vat_number = []"
  then show "vat_number_in_finnish_format vat_number = Inl IndexError"
    by (simp add: vat_number_in_finnish_format_def py_index_empty)
qed

text \<open>
  The three cases: at \<open>FI12345678\<close> (the specification's example), at the one-character
  string of the euro sign (code point \<open>0x20AC\<close>), and at the empty string.
\<close>

theorem vat_number_in_finnish_format_witness:
  "vat_number_in_finnish_format (code_points ''FI12345678'') = Inr (code_points ''1234567-8'') \<and>
   vat_number_in_finnish_format [0x20AC] = Inr [0x2D, 0x20AC] \<and>
   vat_number_in_finnish_format [] = Inl IndexError"
  using vat_number_in_finnish_format_cases [of "code_points ''FI12345678''", THEN conjunct1,
          rule_format, of "code_points ''FI''" "code_points ''1234567''" "of_char (CHR ''8'')"]
        vat_number_in_finnish_format_cases [of "[0x20AC]"]
        vat_number_in_finnish_format_cases [of "[]"]
  by (simp add: code_points_def)

subsection \<open>Field formatters: amounts\<close>


































subsection \<open>Export: mandatory fields\<close>

lemma shipping_lacks_contact:
  "shipping_lacks invoice fld =
     (case shipping_contact invoice of None \<Rightarrow> False | Some p \<Rightarrow> \<not> truthy (fld p))"
  by (simp add: shipping_lacks_def shipping_contact_def)

lemma validate_as_find:
  "validate_required_fields invoice =
     (case find (is_missing invoice) check_order of
        None \<Rightarrow> Inr ()
      | Some f \<Rightarrow> Inl (FinvoiceGenerationException (missing_message f)))"
  by (simp add: validate_required_fields_def check_order_def shipping_lacks_contact)

text \<open>
  C1. When some mandatory field is missing, there is a first missing field \<open>f\<close> in the
  check order (\<open>find\<close> returns the first element of the list that satisfies the
  predicate); the validation and the export both fail with the error whose message names
  \<open>f\<close>, and the export leaves the world as it was: no request has been sent.
\<close>

theorem export_fails_on_first_missing_field:
  assumes "\<exists>g. is_missing invoice g"
  shows "\<exists>f. find (is_missing invoice) check_order = Some f \<and>
             validate_required_fields invoice = Inl (FinvoiceGenerationException (missing_message f)) \<and>
             export_finvoice e invoice w = (Inl (FinvoiceGenerationException (missing_message f)), w)"
proof -
  from assms obtain g where g: "is_missing invoice g" ..
  have "g \<in> set check_order"
    by (cases g) (simp_all add: check_order_def)
  with g have "find (is_missing invoice) check_order \<noteq> None"
    by (auto simp: find_None_iff)
  then obtain f where f: "find (is_missing invoice) check_order = Some f" by auto
  then have v: "validate_required_fields invoice = Inl (FinvoiceGenerationException (missing_message f))"
    by (simp add: validate_as_find)
  then have "export_finvoice e invoice w = (Inl (FinvoiceGenerationException (missing_message f)), w)"
    by (simp add: export_finvoice_def)
  with f v show ?thesis by blast
qed

text \<open>
  An invoice whose shipping contact lacks both its registry and its OVT number: the
  registry comes first in the order, and the export stops there.
\<close>

theorem export_fails_on_first_missing_field_witness:
  "find (is_missing (example_invoice\<lparr>partner_shipping_id :=
           Some (example_partner\<lparr>ahkio_company_registry := None,
                                 ahkio_organisation_unit_number := None\<rparr>)\<rparr>)) check_order =
     Some ShippingRegistry \<and>
   export_finvoice example_env (example_invoice\<lparr>partner_shipping_id :=
           Some (example_partner\<lparr>ahkio_company_registry := None,
                                 ahkio_organisation_unit_number := None\<rparr>)\<rparr>) empty_world =
     (Inl (FinvoiceGenerationException ''Company registry (y-tunnus) missing from shipping contact.''), empty_world)"
proof -
  let ?inv = "example_invoice\<lparr>partner_shipping_id :=
                Some (example_partner\<lparr>ahkio_company_registry := None,
                                      ahkio_organisation_unit_number := None\<rparr>)\<rparr>"
  have f: "find (is_missing ?inv) check_order = Some ShippingRegistry"
    by (simp add: check_order_def example_invoice_def example_partner_def example_company_def
          shipping_contact_def)
  have "\<exists>g. is_missing ?inv g"
    by (rule exI [of _ ShippingOVT])
       (simp add: example_invoice_def example_partner_def shipping_contact_def)
  from export_fails_on_first_missing_field [OF this, of example_env empty_world] f
  show ?thesis by auto
qed

subsection \<open>Apix client: download\<close>

text \<open>
  C5. For a file descriptor with a \<open>StorageStatus\<close>: when the status is \<open>NEW\<close>, or a
  status filter is requested and the status differs from it, or the descriptor has a
  \<open>StorageID\<close> and the attachment table already holds the invoice attachment named
  after it, \<open>download\<close> returns the empty record set and the world is the one it
  started in: no request sent, no record created.
\<close>

theorem download_skips:
  assumes "map_of file ''StorageStatus'' = Some status"
    and "status = ''NEW'' \<or>
         (truthy storage_status \<and> storage_status \<noteq> Some status) \<or>
         (\<exists>sid. map_of file ''StorageID'' = Some sid \<and>
                existing_attachment w (''apix_in_invoice_'' @ sid) \<noteq> None)"
  shows "download e file storage_status w = (Inr None, w)"
  using assms by (auto simp: download_def dict_get_def Let_def)

text \<open>
  The three cases: a descriptor that is \<open>NEW\<close>, one that is \<open>RECEIVED\<close> under the
  default filter \<open>UNRECEIVED\<close>, and one whose attachment \<open>apix_in_invoice_42.zip\<close> is
  already in the table.
\<close>

theorem download_skips_witness:
  "download example_env [(''StorageStatus'', ''NEW''), (''StorageID'', ''42'')] (Some ''UNRECEIVED'') empty_world =
     (Inr None, empty_world) \<and>
   download example_env [(''StorageStatus'', ''RECEIVED''), (''StorageID'', ''42'')] (Some ''UNRECEIVED'') empty_world =
     (Inr None, empty_world) \<and>
   download example_env [(''StorageStatus'', ''UNRECEIVED''), (''StorageID'', ''42'')] (Some ''UNRECEIVED'')
     (empty_world\<lparr>attachments :=
        [\<lparr>att_name = ''apix_in_invoice_42.zip'', att_data = [], att_mimetype = None,
          att_type = Some ''binary'', att_res_model = Some ''account.move'', att_res_id = Some 0\<rparr>]\<rparr>) =
     (Inr None, empty_world\<lparr>attachments :=
        [\<lparr>att_name = ''apix_in_invoice_42.zip'', att_data = [], att_mimetype = None,
          att_type = Some ''binary'', att_res_model = Some ''account.move'', att_res_id = Some 0\<rparr>]\<rparr>)"
proof (intro conjI)
  show "download example_env [(''StorageStatus'', ''NEW''), (''StorageID'', ''42'')] (Some ''UNRECEIVED'') empty_world =
     (Inr None, empty_world)"
    by (rule download_skips [where status = "''NEW''"]) simp_all
  show "download example_env [(''StorageStatus'', ''RECEIVED''), (''StorageID'', ''42'')] (Some ''UNRECEIVED'') empty_world =
     (Inr None, empty_world)"
    by (rule download_skips [where status = "''RECEIVED''"]) simp_all
  show "download example_env [(''StorageStatus'', ''UNRECEIVED''), (''StorageID'', ''42'')] (Some ''UNRECEIVED'')
     (empty_world\<lparr>attachments :=
        [\<lparr>att_name = ''apix_in_invoice_42.zip'', att_data = [], att_mimetype = None,
          att_type = Some ''binary'', att_res_model = Some ''account.move'', att_res_id = Some 0\<rparr>]\<rparr>) =
     (Inr None, empty_world\<lparr>attachments :=
        [\<lparr>att_name = ''apix_in_invoice_42.zip'', att_data = [], att_mimetype = None,
          att_type = Some ''binary'', att_res_model = Some ''account.move'', att_res_id = Some 0\<rparr>]\<rparr>)"
    by (rule download_skips [where status = "''UNRECEIVED''"])
       (simp_all add: existing_attachment_def empty_world_def)
qed

text \<open>
  Any other descriptor with a \<open>StorageKey\<close> does send the request: what follows it
  (storing the zip, importing the document) leaves the log of requests alone.
\<close>

lemma create_invoice_attachments_log:
  "http_log (snd (create_invoice_attachments m fs w)) = http_log w"
  by (induction m fs w rule: create_invoice_attachments.induct)
     (simp_all add: create_attachment_def case_prod_unfold Let_def)

lemma import_finvoice_log: "http_log (snd (import_finvoice e tree w)) = http_log w"
  by (simp add: import_finvoice_def save_form_def Let_def case_prod_unfold split: sum.splits)

lemma store_and_import_log:
  "http_log (snd (store_and_import e file fn r w)) = http_log w"
  unfolding store_and_import_def
  by (simp add: create_attachment_def message_post_def Let_def case_prod_unfold
        import_finvoice_log create_invoice_attachments_log
      split: sum.splits option.splits)

lemma download_sends:
  assumes "map_of file ''StorageStatus'' = Some status" "status \<noteq> ''NEW''"
     "\<not> truthy storage_status \<or> storage_status = Some status"
     "map_of file ''StorageID'' = Some sid" "existing_attachment w (''apix_in_invoice_'' @ sid) = None"
     "map_of file ''StorageKey'' = Some k"
  shows "http_log (snd (download e file storage_status w)) =
         http_log w @ [\<lparr>http_method = ''GET'', url = download_url e,
                         params = download_params e sid k, body = []\<rparr>]"
  using assms
  by (auto simp: download_def dict_get_def Let_def send_def store_and_import_log)


subsection \<open>Apix client: listing\<close>

text \<open>
  C4, what the code does on a response whose status is not \<open>OK\<close>. The statement
  \<^verbatim>\<open>raise response.text\<close> raises a string, so the caller gets Python's
  \<^verbatim>\<open>TypeError: exceptions must derive from BaseException\<close>: the operation fails, but
  the failure does not carry the response body. (The export raises
  \<^verbatim>\<open>FinvoiceGenerationException(response.text)\<close> at the same place.)
\<close>

theorem list_non_ok_loses_body:
  assumes "list_params e c = Inr ps"
    and "fromstring e (response_text (http e \<lparr>http_method = ''GET'', url = list_url e,
                                                params = ps, body = []\<rparr>)) = Some doc"
    and "xpath_abs2 ''Response'' ''Status'' doc = st # rest"
    and "text_of st \<noteq> Some ''OK''"
  shows "fst (list_invoice_zips e c w) = Inl (TypeError ''exceptions must derive from BaseException'')"
  using assms
  by (simp add: list_invoice_zips_def send_def response_status_def py_index_def raise_str_def)

text \<open>The response \<open>failure_body\<close>, whose status is \<open>ERROR\<close>: its text is not in the error.\<close>

theorem list_non_ok_loses_body_witness:
  "fromstring example_env failure_body = Some failure_tree \<and>
   fst (list_invoice_zips example_env example_company empty_world) =
     Inl (TypeError ''exceptions must derive from BaseException'')"
proof -
  have p: "list_params example_env example_company =
       Inr (dict_set [(''TraID'', ''tra-1''), (''t'', ''20230101120000'')] ''d''
             (calculate_digest [(''TraID'', ''tra-1''), (''t'', ''20230101120000'')] ''secret''))"
    by (simp add: list_params_def example_company_def example_env_def)
  have r: "\<And>req. response_text (http example_env req) = failure_body"
    by (simp add: example_env_def)
  have f: "fromstring example_env failure_body = Some failure_tree"
    by (simp add: example_env_def)
  have x: "xpath_abs2 ''Response'' ''Status'' failure_tree =
           Element ''Status'' [] (Some ''ERROR'') [] None # []"
    by (simp add: xpath_abs2_def failure_tree_def child_elements_def)
  show ?thesis
    using list_non_ok_loses_body [OF p, of failure_tree _ "[]" empty_world] r f x by simp
qed

subsection \<open>Import: currency\<close>

text \<open>
  Where the lookup finds a currency, or there is no identifier to look up, the step does
  what C6 says: the form's currency changes only to a found, active currency other than
  the company's.
\<close>

lemma import_currency_found:
  assumes "xpath_all ''InvoiceTotalVatIncludedAmount'' tree = el # els"
    and "map_of (attrib el) ''AmountCurrencyIdentifier'' = Some currency_str"
    and "currency_str \<noteq> []"
    and "ref_currency e currency_str = Some cur"
  shows "import_currency e tree form =
           Inr (if currency_id_no cur \<noteq> currency_id_no (currency_id (env_company e)) \<and> active cur
                then form\<lparr>form_currency_id := cur\<rparr> else form)"
  using assms by (simp add: import_currency_def)

lemma import_currency_absent:
  assumes "xpath_all ''InvoiceTotalVatIncludedAmount'' tree = [] \<or>
           (\<exists>el els. xpath_all ''InvoiceTotalVatIncludedAmount'' tree = el # els \<and>
              (map_of (attrib el) ''AmountCurrencyIdentifier'' = None \<or>
               map_of (attrib el) ''AmountCurrencyIdentifier'' = Some []))"
  shows "import_currency e tree form = Inr form"
  using assms by (auto simp: import_currency_def)

text \<open>
  C6, what the code does on an identifier that no currency record has: the lookup is
  made with \<^verbatim>\<open>raise_if_not_found=False\<close> and returns \<^verbatim>\<open>None\<close>, the comparison with
  the company's currency holds, and \<^verbatim>\<open>currency.active\<close> raises \<^verbatim>\<open>AttributeError\<close>.
  The default currency is not kept: the import fails.
\<close>

theorem import_fails_on_unknown_currency:
  assumes "xpath_all ''InvoiceTotalVatIncludedAmount'' tree = el # els"
    and "map_of (attrib el) ''AmountCurrencyIdentifier'' = Some currency_str"
    and "currency_str \<noteq> []"
    and "ref_currency e currency_str = None"
  shows "import_currency e tree form = Inl (AttributeError ''active'')"
  using assms by (simp add: import_currency_def)

lemma xpath_unknown:
  "xpath_all ''InvoiceTotalVatIncludedAmount'' unknown_currency_tree =
     [Element ''InvoiceTotalVatIncludedAmount'' [(''AmountCurrencyIdentifier'', ''XXX'')]
          (Some ''100,00'') [] None]"
  by (simp add: xpath_all_def unknown_currency_tree_def)

lemma xpath_unknown_other:
  "t \<noteq> ''InvoiceTotalVatIncludedAmount'' \<Longrightarrow> t \<noteq> ''Finvoice'' \<Longrightarrow> xpath_all t unknown_currency_tree = []"
  by (simp add: xpath_all_def unknown_currency_tree_def)

text \<open>
  The document \<open>unknown_currency_tree\<close> (identifier \<open>XXX\<close>, total \<open>100,00\<close>): the
  currency step fails, and so does the whole import, with nothing created.
\<close>

theorem import_fails_on_unknown_currency_witness:
  "import_currency example_env unknown_currency_tree example_form = Inl (AttributeError ''active'') \<and>
   import_finvoice example_env unknown_currency_tree empty_world = (Inl (AttributeError ''active''), empty_world)"
proof -
  have c: "import_currency example_env unknown_currency_tree form = Inl (AttributeError ''active'')" for form
    by (rule import_fails_on_unknown_currency [OF xpath_unknown, where currency_str = "''XXX''"])
       (simp_all add: example_env_def)
  have co: "resolve_company example_env unknown_currency_tree = None"
    by (simp add: resolve_company_def search_first_def xpath_unknown_other example_env_def)
  have t: "total_amount example_env unknown_currency_tree = Inr 100"
    by (simp add: total_amount_def xpath_unknown parse_decimal_def replace_char_def example_env_def)
  have n: "\<exists>s. narration unknown_currency_tree = Inr s"
    by (simp add: narration_def xpath_unknown xpath_unknown_other account_details_def join_items_def)
  have "import_finvoice example_env unknown_currency_tree empty_world = (Inl (AttributeError ''active''), empty_world)"
    using n by (auto simp add: import_finvoice_def import_company_def co check_company_def t fill_form_def c)
  with c show ?thesis by simp
qed

subsection \<open>Import: authorization\<close>

text \<open>No step of the import after the company check raises a \<^verbatim>\<open>UserError\<close>.\<close>

lemma parse_decimal_not_user: "parse_decimal e t = Inl err \<Longrightarrow> err \<noteq> UserError m"
  by (auto simp: parse_decimal_def split: option.splits)

lemma total_amount_not_user: "total_amount e tree = Inl err \<Longrightarrow> err \<noteq> UserError m"
  by (auto simp: total_amount_def split: list.splits sum.splits dest: parse_decimal_not_user)

lemma account_lines_not_user: "account_lines acc els = Inl err \<Longrightarrow> err \<noteq> UserError m"
  by (induction acc els rule: account_lines.induct) (auto split: option.splits)

lemma narration_not_user: "narration tree = Inl err \<Longrightarrow> err \<noteq> UserError m"
  by (auto simp: narration_def account_details_def join_items_def Let_def
           split: sum.splits if_splits dest: account_lines_not_user)

lemma import_currency_not_user: "import_currency e tree form = Inl err \<Longrightarrow> err \<noteq> UserError m"
  by (auto simp: import_currency_def split: list.splits option.splits if_splits)

lemma import_date_not_user: "import_date e els = Inl err \<Longrightarrow> err \<noteq> UserError m"
  by (auto simp: import_date_def split: list.splits option.splits)

lemma import_number_not_user: "import_number e els d = Inl err \<Longrightarrow> err \<noteq> UserError m"
  by (auto simp: import_number_def split: list.splits dest: parse_decimal_not_user)

lemma import_taxes_not_user: "import_taxes e form acc els = Inl err \<Longrightarrow> err \<noteq> UserError m"
  by (induction e form acc els rule: import_taxes.induct)
     (auto split: sum.splits option.splits dest: parse_decimal_not_user)

lemma import_line_not_user: "import_line e form el = Inl err \<Longrightarrow> err \<noteq> UserError m"
  by (auto simp: import_line_def Let_def split: sum.splits
           dest: import_number_not_user import_taxes_not_user)

lemma import_lines_not_user: "import_lines e form els = Inl err \<Longrightarrow> err \<noteq> UserError m"
  by (induction e form els rule: import_lines.induct)
     (auto split: sum.splits dest: import_line_not_user)

lemma fill_form_not_user: "fill_form e tree form = Inl err \<Longrightarrow> err \<noteq> UserError m"
  by (auto simp: fill_form_def Let_def split: sum.splits
           dest: narration_not_user import_currency_not_user import_date_not_user import_lines_not_user)

text \<open>
  C10. The import raises a \<^verbatim>\<open>UserError\<close>, and then the authorization error, exactly
  when the caller is not the superuser and the company the document resolves to (the
  caller's own when none is found) is not the caller's company. For the superuser the
  check is skipped, whatever the company.
\<close>

theorem import_authorization:
  "(\<exists>m. fst (import_finvoice e tree w) = Inl (UserError m)) =
     (\<not> is_superuser e \<and> company_id_no (import_company e tree) \<noteq> company_id_no (env_company e)) \<and>
   (fst (import_finvoice e tree w) = Inl (authorization_error e)) =
     (\<not> is_superuser e \<and> company_id_no (import_company e tree) \<noteq> company_id_no (env_company e))"
proof (cases "check_company e (import_company e tree)")
  case (Inl err)
  then have "\<not> is_superuser e \<and> company_id_no (import_company e tree) \<noteq> company_id_no (env_company e)"
    and "err = authorization_error e"
    by (auto simp: check_company_def split: if_splits)
  with Inl show ?thesis
    by (auto simp: import_finvoice_def authorization_error_def)
next
  case (Inr u)
  then have no: "\<not> (\<not> is_superuser e \<and> company_id_no (import_company e tree) \<noteq> company_id_no (env_company e))"
    by (auto simp: check_company_def split: if_splits)
  have "fst (import_finvoice e tree w) \<noteq> Inl (UserError m)" for m
    using Inr
    by (auto simp: import_finvoice_def Let_def case_prod_unfold split: sum.splits
             dest: total_amount_not_user fill_form_not_user)
  with no show ?thesis
    by (auto simp: authorization_error_def)
qed


lemma other_company_resolved:
  "import_company (other_company_env\<lparr>is_superuser := su\<rparr>) other_company_tree = other_company"
  by (simp add: import_company_def resolve_company_def search_first_def xpath_all_def
        other_company_tree_def other_company_env_def example_env_def)

text \<open>
  A document addressed to another company: refused for an ordinary user, imported (as
  invoice 0 of an empty world) for the superuser.
\<close>

theorem import_authorization_witness:
  "fst (import_finvoice (other_company_env\<lparr>is_superuser := False\<rparr>) other_company_tree empty_world) =
     Inl (UserError ''You can only import invoices to your company: Seller Oy'') \<and>
   fst (import_finvoice (other_company_env\<lparr>is_superuser := True\<rparr>) other_company_tree empty_world) \<noteq>
     Inl (authorization_error (other_company_env\<lparr>is_superuser := True\<rparr>)) \<and>
   fst (import_finvoice (other_company_env\<lparr>is_superuser := True\<rparr>) other_company_tree empty_world) =
     Inr 0"
proof -
  have ids: "company_id_no other_company \<noteq> company_id_no (env_company (other_company_env\<lparr>is_superuser := su\<rparr>))" for su
    by (simp add: other_company_def other_company_env_def example_env_def example_company_def)
  have a: "authorization_error (other_company_env\<lparr>is_superuser := False\<rparr>) =
           UserError ''You can only import invoices to your company: Seller Oy''"
    by (simp add: authorization_error_def other_company_env_def example_env_def example_company_def)
  have x: "t \<noteq> ''BuyerPartyIdentifier'' \<Longrightarrow> t \<noteq> ''Finvoice'' \<Longrightarrow> xpath_all t other_company_tree = []" for t
    by (simp add: xpath_all_def other_company_tree_def)
  have t: "total_amount e other_company_tree = Inr 0" for e
    by (simp add: total_amount_def x)
  have f: "\<exists>form. fill_form e other_company_tree form0 = Inr form" for e form0
    by (simp add: fill_form_def narration_def x account_details_def join_items_def
          import_currency_def import_date_def Let_def)
  have s: "fst (import_finvoice (other_company_env\<lparr>is_superuser := True\<rparr>) other_company_tree empty_world) = Inr 0"
  proof -
    let ?e = "other_company_env\<lparr>is_superuser := True\<rparr>"
    obtain form where
      "fill_form ?e other_company_tree
         (new_form ?e (map_option company_id_no (resolve_company ?e other_company_tree)) ''in_invoice'') =
       Inr form"
      using f by blast
    then show ?thesis
      by (simp add: import_finvoice_def other_company_resolved check_company_def t Let_def
            save_form_def empty_world_def)
  qed
  from import_authorization [of "other_company_env\<lparr>is_superuser := False\<rparr>" other_company_tree empty_world]
       import_authorization [of "other_company_env\<lparr>is_superuser := True\<rparr>" other_company_tree empty_world]
       ids a s
  show ?thesis
    by (simp add: other_company_resolved)
qed

subsection \<open>Export: tax lines\<close>

lemma set_first_seen: "set (first_seen xs) = set xs"
  by (induction xs) auto

lemma distinct_first_seen: "distinct (first_seen xs)"
  by (induction xs) (auto simp: set_first_seen)

lemma keys_dict_set:
  "map fst (dict_set d k v) = (if k \<in> fst ` set d then map fst d else map fst d @ [k])"
  by (induction d k v rule: dict_set.induct) auto

lemma map_of_dict_set: "map_of (dict_set d k v) = (map_of d)(k \<mapsto> v)"
  by (induction d k v rule: dict_set.induct) auto

lemma keys_fold_dict_set:
  "map fst (foldl (\<lambda>d (k, v). dict_set d k v) d kvs) =
     map fst d @ filter (\<lambda>k. k \<notin> fst ` set d) (first_seen (map fst kvs))"
proof (induction kvs arbitrary: d)
  case Nil
  then show ?case by simp
next
  case (Cons kv kvs)
  obtain k v where kv: "kv = (k, v)" by (cases kv)
  have "filter (\<lambda>x. x \<notin> fst ` set d \<and> x \<noteq> k) (first_seen (map fst kvs)) =
        filter (\<lambda>x. x \<notin> fst ` set d) (first_seen (map fst kvs))" if "k \<in> fst ` set d"
    using that by (intro filter_cong) auto
  moreover have "fst ` set (dict_set d k v) = insert k (fst ` set d)"
    using keys_dict_set [of d k v] by (metis (no_types, lifting) insert_absorb list.set_map set_append list.simps(15) empty_set Un_insert_right sup_bot.right_neutral)
  ultimately show ?case
    using Cons.IH [of "dict_set d k v"]
    by (auto simp: kv keys_dict_set conj_commute)
qed


lemma map_of_fold_dict_set:
  "map_of (foldl (\<lambda>d (k, v). dict_set d k v) d kvs) = map_of d ++ map_of (rev kvs)"
proof (induction kvs arbitrary: d)
  case Nil
  then show ?case by simp
next
  case (Cons kv kvs)
  obtain k v where kv: "kv = (k, v)" by (cases kv)
  show ?case
    using Cons.IH [of "dict_set d k v"]
    by (simp add: kv map_of_dict_set map_of_append fun_eq_iff map_add_def split: option.splits)
qed

lemma keys_dict_of_pairs: "map fst (dict_of_pairs kvs) = first_seen (map fst kvs)"
  by (simp add: dict_of_pairs_def keys_fold_dict_set)

lemma map_of_dict_of_pairs: "map_of (dict_of_pairs kvs) = map_of (rev kvs)"
  by (simp add: dict_of_pairs_def map_of_fold_dict_set)

lemma tax_line_pairs_snoc:
  "tax_line_pairs (ls @ [l]) =
     tax_line_pairs ls @ (case tax_line_id l of None \<Rightarrow> [] | Some t \<Rightarrow> [(t, tax_line_entry l)])"
  by (simp add: tax_line_pairs_def List.map_filter_def split: option.splits)

lemma keys_tax_line_pairs: "map fst (tax_line_pairs ls) = List.map_filter tax_line_id ls"
  by (induction ls) (auto simp: tax_line_pairs_def List.map_filter_def split: option.splits)

lemma map_of_tax_line_pairs:
  "map_of (rev (tax_line_pairs ls)) k =
     (if Some k \<in> tax_line_id ` set ls
      then Some (tax_line_entry (last (filter (\<lambda>l. tax_line_id l = Some k) ls)))
      else None)"
proof (induction ls rule: rev_induct)
  case Nil
  then show ?case by (simp add: tax_line_pairs_def List.map_filter_def)
next
  case (snoc l ls)
  show ?case
  proof (cases "tax_line_id l")
    case None
    with snoc show ?thesis
      by (auto simp: tax_line_pairs_snoc image_iff)
  next
    case (Some t)
    with snoc show ?thesis
      by (auto simp: tax_line_pairs_snoc image_iff)
  qed
qed

lemma set_map_filter_tax: "k \<in> set (List.map_filter tax_line_id ls) \<longleftrightarrow> Some k \<in> tax_line_id ` set ls"
  by (induction ls) (auto simp: List.map_filter_simps split: option.splits)

lemma keys_add_base: "map fst (add_base agg tr) = map fst agg"
proof (cases "map_of agg (tax_res_id tr)")
  case None
  then show ?thesis by (simp add: add_base_def)
next
  case (Some d)
  then have "tax_res_id tr \<in> fst ` set agg"
    using map_of_eq_None_iff [of agg "tax_res_id tr"] by auto
  with Some show ?thesis by (simp add: add_base_def keys_dict_set)
qed

lemma map_of_add_base:
  "map_of (add_base agg tr) k =
     map_option (\<lambda>d. if tax_res_id tr = k
                       then d\<lparr>td_tax_base_amount := td_tax_base_amount d + tax_res_base tr\<rparr> else d)
       (map_of agg k)"
  by (cases "map_of agg k"; cases "map_of agg (tax_res_id tr)")
     (auto simp: add_base_def map_of_dict_set)

lemma keys_fold_add_base: "map fst (foldl add_base agg trs) = map fst agg"
  by (induction trs arbitrary: agg) (simp_all add: keys_add_base)

lemma map_of_fold_add_base:
  "map_of (foldl add_base agg trs) k =
     map_option (\<lambda>d. d\<lparr>td_tax_base_amount :=
                         td_tax_base_amount d +
                         sum_list (map tax_res_base (filter (\<lambda>tr. tax_res_id tr = k) trs))\<rparr>)
       (map_of agg k)"
proof (induction trs arbitrary: agg)
  case Nil
  then show ?case by (cases "map_of agg k") simp_all
next
  case (Cons tr trs)
  show ?case
    by (cases "map_of agg k") (simp_all add: Cons.IH map_of_add_base add.assoc)
qed

lemma fst_fold_line_step:
  "fst (foldl (invoice_line_step e invoice) st ils) =
     foldl add_base (fst st) (concat (map (\<lambda>il. taxes (line_taxes_res e invoice (snd il))) ils))"
  by (induction ils arbitrary: st) (simp_all add: invoice_line_step_def Let_def)

lemma aggregated_as_fold:
  "aggregated_taxes_details e invoice =
     foldl add_base (initial_taxes_details invoice) (line_tax_results e invoice)"
proof -
  have "map (\<lambda>il. taxes (line_taxes_res e invoice (snd il))) (enumerate 0 xs) =
        map (\<lambda>l. taxes (line_taxes_res e invoice l)) xs" for xs
    using map_snd_enumerate [of 0 xs]
          map_map [of "\<lambda>l. taxes (line_taxes_res e invoice l)" snd "enumerate 0 xs"]
    by (simp add: comp_def)
  then show ?thesis
    by (simp add: aggregated_taxes_details_def tax_and_line_values_def fst_fold_line_step
          line_tax_results_def)
qed

lemma alist_by_keys:
  "distinct (map fst xs) \<Longrightarrow> xs = map (\<lambda>k. (k, the (map_of xs k))) (map fst xs)"
proof -
  assume d: "distinct (map fst xs)"
  have "map (\<lambda>p. (fst p, the (map_of xs (fst p)))) xs = xs"
  proof (rule map_idI)
    fix p
    assume "p \<in> set xs"
    then have "map_of xs (fst p) = Some (snd p)"
      using d by (intro map_of_is_SomeI) simp_all
    then show "(fst p, the (map_of xs (fst p))) = p" by simp
  qed
  then show ?thesis by (simp add: comp_def)
qed

text \<open>
  C3, as the code has it. The aggregated tax details have one entry per tax that has a tax
  journal item on the invoice, in the order in which these taxes first appear among the
  journal items. The entry of tax \<open>k\<close> holds the last journal item of \<open>k\<close>, as tax amount
  the negated amount of that item, and as base amount the sum of the bases the tax engine
  gives for \<open>k\<close> over all invoice lines. A tax that only invoice lines bear has no entry,
  and no tax amount is summed over the invoice lines.
\<close>

theorem aggregated_taxes_details_characterised:
  "aggregated_taxes_details e invoice =
     map (\<lambda>k. (k, (tax_line_entry (last_tax_line invoice k))
                    \<lparr>td_tax_base_amount := sum_list (bases_for e invoice k)\<rparr>))
       (first_seen (tax_line_keys invoice))"
proof -
  let ?agg = "aggregated_taxes_details e invoice"
  have init: "initial_taxes_details invoice = dict_of_pairs (tax_line_pairs (line_ids invoice))"
    by (simp add: initial_taxes_details_def tax_line_pairs_def)
  have keys: "map fst ?agg = first_seen (tax_line_keys invoice)"
    by (simp add: aggregated_as_fold keys_fold_add_base init keys_dict_of_pairs
          keys_tax_line_pairs tax_line_keys_def)
  then have "distinct (map fst ?agg)"
    by (simp add: distinct_first_seen)
  then have "?agg = map (\<lambda>k. (k, the (map_of ?agg k))) (first_seen (tax_line_keys invoice))"
    using alist_by_keys [of ?agg] keys by simp
  also have "\<dots> = map (\<lambda>k. (k, (tax_line_entry (last_tax_line invoice k))
                    \<lparr>td_tax_base_amount := sum_list (bases_for e invoice k)\<rparr>))
       (first_seen (tax_line_keys invoice))"
  proof (rule map_cong [OF refl])
    fix k
    assume "k \<in> set (first_seen (tax_line_keys invoice))"
    then have "Some k \<in> tax_line_id ` set (line_ids invoice)"
      by (simp add: set_first_seen tax_line_keys_def set_map_filter_tax)
    then have "map_of (initial_taxes_details invoice) k = Some (tax_line_entry (last_tax_line invoice k))"
      by (simp add: init map_of_dict_of_pairs map_of_tax_line_pairs last_tax_line_def)
    then show "(k, the (map_of ?agg k)) =
               (k, (tax_line_entry (last_tax_line invoice k))
                    \<lparr>td_tax_base_amount := sum_list (bases_for e invoice k)\<rparr>)"
      by (simp add: aggregated_as_fold map_of_fold_add_base bases_for_def tax_line_entry_def)
  qed
  finally show ?thesis .
qed


lemma three_lines_results:
  "line_tax_results example_env (example_invoice\<lparr>line_ids := ls, invoice_line_ids := three_lines\<rparr>) =
     [\<lparr>tax_res_id = 1, tax_res_amount = 24, tax_res_base = 100\<rparr>,
      \<lparr>tax_res_id = 1, tax_res_amount = 12, tax_res_base = 50\<rparr>,
      \<lparr>tax_res_id = 2, tax_res_amount = 0, tax_res_base = 10\<rparr>]"
  by (simp add: line_tax_results_def product_lines_def three_lines_def line_taxes_res_def
        example_env_def)

text \<open>
  Two lines with tax 1, one line with tax 2, and a tax journal item for each tax: two
  entries, with the bases summed per tax.
\<close>

theorem aggregated_taxes_details_witness:
  "aggregated_taxes_details example_env two_tax_lines_invoice =
     [(1, \<lparr>td_line = tax_line_1, td_tax_amount = 36, td_tax_base_amount = 100 + 50\<rparr>),
      (2, \<lparr>td_line = tax_line_2, td_tax_amount = 0, td_tax_base_amount = 10\<rparr>)]"
proof -
  have k: "first_seen (tax_line_keys two_tax_lines_invoice) = [1, 2]"
    by (simp add: tax_line_keys_def two_tax_lines_invoice_def List.map_filter_simps
          tax_line_1_def tax_line_2_def)
  have l: "last_tax_line two_tax_lines_invoice (Suc 0) = tax_line_1"
          "last_tax_line two_tax_lines_invoice 2 = tax_line_2"
    by (simp_all add: last_tax_line_def two_tax_lines_invoice_def tax_line_1_def tax_line_2_def)
  have b: "bases_for example_env two_tax_lines_invoice (Suc 0) = [100, 50]"
          "bases_for example_env two_tax_lines_invoice 2 = [10]"
    by (simp_all add: bases_for_def two_tax_lines_invoice_def three_lines_results)
  have e: "tax_line_entry tax_line_1 = \<lparr>td_line = tax_line_1, td_tax_amount = 36, td_tax_base_amount = 0\<rparr>"
          "tax_line_entry tax_line_2 = \<lparr>td_line = tax_line_2, td_tax_amount = 0, td_tax_base_amount = 0\<rparr>"
    by (simp_all add: tax_line_entry_def tax_line_1_def tax_line_2_def)
  show ?thesis
    using aggregated_taxes_details_characterised [of example_env two_tax_lines_invoice]
    by (simp add: k l b e)
qed

text \<open>
  C3 as stated promises two entries whenever two lines share one tax and a third line has
  another. With the same three lines and a journal that has a tax item for tax 1 only,
  the engine still reports taxes 1, 1 and 2 for the lines, and there is one entry.
\<close>

theorem aggregated_taxes_details_counterexample:
  "map (\<lambda>l. map tax_res_id (taxes (line_taxes_res example_env one_tax_line_invoice l)))
     (product_lines one_tax_line_invoice) = [[1], [1], [2]] \<and>
   map fst (aggregated_taxes_details example_env one_tax_line_invoice) = [1] \<and>
   length (aggregated_taxes_details example_env one_tax_line_invoice) \<noteq> 2"
proof -
  have a: "map (\<lambda>l. map tax_res_id (taxes (line_taxes_res example_env one_tax_line_invoice l)))
     (product_lines one_tax_line_invoice) = [[1], [1], [2]]"
    by (simp add: product_lines_def one_tax_line_invoice_def three_lines_def line_taxes_res_def
          example_env_def)
  have k: "map fst (aggregated_taxes_details example_env one_tax_line_invoice) = [1]"
    by (simp add: aggregated_as_fold keys_fold_add_base initial_taxes_details_def
          keys_dict_of_pairs one_tax_line_invoice_def List.map_filter_simps tax_line_1_def)
  from k have "length (aggregated_taxes_details example_env one_tax_line_invoice) = 1"
    using length_map [of fst "aggregated_taxes_details example_env one_tax_line_invoice"] by simp
  with a k show ?thesis by simp
qed

subsection \<open>Digest signer\<close>





















subsection \<open>Transmitted parameters\<close>

lemma upload_params_value:
  "ahkio_apix_transfer_id c = Some tid \<Longrightarrow> ahkio_apix_transfer_key c = Some key \<Longrightarrow>
   upload_params e c =
     Inr [(''soft'', ''Ahkio''), (''ver'', ''2.0''), (''TraID'', tid), (''t'', clock_t e),
          (''d'', ''SHA-256:'' @ hexdigest (sha256 (join ''+'' [''Ahkio'', ''2.0'', tid, clock_t e, key])))]"
  by (simp add: upload_params_def)

lemma list_params_value:
  "ahkio_apix_transfer_id c = Some tid \<Longrightarrow> ahkio_apix_transfer_key c = Some key \<Longrightarrow>
   list_params e c =
     Inr [(''TraID'', tid), (''t'', clock_t e),
          (''d'', ''SHA-256:'' @ hexdigest (sha256 (join ''+'' [tid, clock_t e, key])))]"
  by (simp add: list_params_def calculate_digest_def)

lemma export_sent_params:
  "sent_params w (snd (export_finvoice e invoice w)) =
     (case validate_required_fields invoice of
        Inl err \<Rightarrow> []
      | Inr u \<Rightarrow> (case upload_params e (company_id invoice) of Inl err \<Rightarrow> [] | Inr ps \<Rightarrow> [ps]))"
  by (simp add: export_finvoice_def sent_params_def send_def create_attachment_def Let_def
        case_prod_unfold split: sum.splits)

lemma list_sent_params:
  "sent_params w (snd (list_invoice_zips e c w)) =
     (case list_params e c of Inl err \<Rightarrow> [] | Inr ps \<Rightarrow> [ps])"
  by (simp add: list_invoice_zips_def sent_params_def send_def Let_def
        case_prod_unfold split: sum.splits)

text \<open>
  C9. With credentials set, the parameter set of the upload is \<open>soft\<close>, \<open>ver\<close>,
  \<open>TraID\<close>, \<open>t\<close> and \<open>d\<close>, and that of the listing \<open>TraID\<close>, \<open>t\<close> and \<open>d\<close>: the
  transfer key is no parameter, and it occurs only inside the message given to SHA-256.
  These are the parameters of the one request each operation sends (none is sent when the
  validation or the digest fails). Two keys whose messages have the same hash give the
  same parameter set: the key reaches the request through the hash alone.
\<close>

theorem transmitted_parameters:
  "(ahkio_apix_transfer_id c = Some tid \<and> ahkio_apix_transfer_key c = Some key \<longrightarrow>
      upload_params e c =
        Inr [(''soft'', ''Ahkio''), (''ver'', ''2.0''), (''TraID'', tid), (''t'', clock_t e),
             (''d'', ''SHA-256:'' @
                hexdigest (sha256 (join ''+'' [''Ahkio'', ''2.0'', tid, clock_t e, key])))] \<and>
      list_params e c =
        Inr [(''TraID'', tid), (''t'', clock_t e),
             (''d'', ''SHA-256:'' @ hexdigest (sha256 (join ''+'' [tid, clock_t e, key])))]) \<and>
   sent_params w (snd (export_finvoice e invoice w)) =
     (case validate_required_fields invoice of
        Inl err \<Rightarrow> []
      | Inr u \<Rightarrow> (case upload_params e (company_id invoice) of Inl err \<Rightarrow> [] | Inr ps \<Rightarrow> [ps])) \<and>
   sent_params w (snd (list_invoice_zips e c w)) =
     (case list_params e c of Inl err \<Rightarrow> [] | Inr ps \<Rightarrow> [ps]) \<and>
   (sha256 (join ''+'' [''Ahkio'', ''2.0'', tid, clock_t e, key]) =
    sha256 (join ''+'' [''Ahkio'', ''2.0'', tid, clock_t e, key']) \<longrightarrow>
      upload_params e (c\<lparr>ahkio_apix_transfer_id := Some tid, ahkio_apix_transfer_key := Some key\<rparr>) =
      upload_params e (c\<lparr>ahkio_apix_transfer_id := Some tid, ahkio_apix_transfer_key := Some key'\<rparr>)) \<and>
   (sha256 (join ''+'' [tid, clock_t e, key]) = sha256 (join ''+'' [tid, clock_t e, key']) \<longrightarrow>
      list_params e (c\<lparr>ahkio_apix_transfer_id := Some tid, ahkio_apix_transfer_key := Some key\<rparr>) =
      list_params e (c\<lparr>ahkio_apix_transfer_id := Some tid, ahkio_apix_transfer_key := Some key'\<rparr>))"
proof (intro conjI impI)
  assume a: "ahkio_apix_transfer_id c = Some tid \<and> ahkio_apix_transfer_key c = Some key"
  then show "upload_params e c =
        Inr [(''soft'', ''Ahkio''), (''ver'', ''2.0''), (''TraID'', tid), (''t'', clock_t e),
             (''d'', ''SHA-256:'' @
                hexdigest (sha256 (join ''+'' [''Ahkio'', ''2.0'', tid, clock_t e, key])))]"
    by (simp add: upload_params_value)
  from a show "list_params e c =
        Inr [(''TraID'', tid), (''t'', clock_t e),
             (''d'', ''SHA-256:'' @ hexdigest (sha256 (join ''+'' [tid, clock_t e, key])))]"
    by (simp add: list_params_value)
next
  show "sent_params w (snd (export_finvoice e invoice w)) =
     (case validate_required_fields invoice of
        Inl err \<Rightarrow> []
      | Inr u \<Rightarrow> (case upload_params e (company_id invoice) of Inl err \<Rightarrow> [] | Inr ps \<Rightarrow> [ps]))"
    by (rule export_sent_params)
  show "sent_params w (snd (list_invoice_zips e c w)) =
     (case list_params e c of Inl err \<Rightarrow> [] | Inr ps \<Rightarrow> [ps])"
    by (rule list_sent_params)
next
  assume "sha256 (join ''+'' [''Ahkio'', ''2.0'', tid, clock_t e, key]) =
    sha256 (join ''+'' [''Ahkio'', ''2.0'', tid, clock_t e, key'])"
  then show "upload_params e (c\<lparr>ahkio_apix_transfer_id := Some tid, ahkio_apix_transfer_key := Some key\<rparr>) =
      upload_params e (c\<lparr>ahkio_apix_transfer_id := Some tid, ahkio_apix_transfer_key := Some key'\<rparr>)"
    by (simp add: upload_params_value)
next
  assume "sha256 (join ''+'' [tid, clock_t e, key]) = sha256 (join ''+'' [tid, clock_t e, key'])"
  then show "list_params e (c\<lparr>ahkio_apix_transfer_id := Some tid, ahkio_apix_transfer_key := Some key\<rparr>) =
      list_params e (c\<lparr>ahkio_apix_transfer_id := Some tid, ahkio_apix_transfer_key := Some key'\<rparr>)"
    by (simp add: list_params_value)
qed


text \<open>The requests of the export and of the listing for the example company.\<close>

theorem transmitted_parameters_witness:
  "sent_params empty_world (snd (export_finvoice example_env example_invoice empty_world)) =
     [[(''soft'', ''Ahkio''), (''ver'', ''2.0''), (''TraID'', ''tra-1''), (''t'', ''20230101120000''),
       (''d'', ''SHA-256:'' @ hexdigest (sha256 ''Ahkio+2.0+tra-1+20230101120000+secret''))]] \<and>
   sent_params empty_world (snd (list_invoice_zips example_env example_company empty_world)) =
     [[(''TraID'', ''tra-1''), (''t'', ''20230101120000''),
       (''d'', ''SHA-256:'' @ hexdigest (sha256 ''tra-1+20230101120000+secret''))]]"
proof -
  have c: "ahkio_apix_transfer_id example_company = Some ''tra-1'' \<and>
           ahkio_apix_transfer_key example_company = Some ''secret''"
    by (simp add: example_company_def)
  have t: "clock_t example_env = ''20230101120000''"
    by (simp add: example_env_def)
  have i: "company_id example_invoice = example_company"
    by (simp add: example_invoice_def)
  have v: "validate_required_fields example_invoice = Inr ()"
    by (simp add: validate_required_fields_def shipping_lacks_def example_invoice_def
          example_company_def example_partner_def)
  from transmitted_parameters [where c = example_company and tid = "''tra-1''" and key = "''secret''"
      and e = example_env and w = empty_world and invoice = example_invoice and key' = "''secret''"]
    c t i v
  show ?thesis by simp
qed

end
